theory Spec2Isabelle
  imports Complex_Main
begin

section \<open>Conventions of the embedding\<close>

text \<open>
  The TypeScript sources are embedded shallowly.

  \<^item> A JavaScript \<^verbatim>\<open>number\<close> that carries a quantity (a percentage, a cost, a token count)
    is the \<^typ>\<open>real\<close> it denotes; there is no \<^verbatim>\<open>NaN\<close>. Comparisons of numbers are exact.
    The addition of costs rounds, and the model does not fix it: it is the parameter \<open>add\<close>
    of the functions that add costs, and what is proved of them holds for every addition.
    Token counts are whole numbers far below 2^53, whose sums are exact. A millisecond timestamp
    (\<^verbatim>\<open>Date.now()\<close>, \<^verbatim>\<open>Date.getTime()\<close>) is an \<^typ>\<open>int\<close>; an invalid date is \<open>None\<close>.
  \<^item> An optional or nullable field is an \<^typ>\<open>'a option\<close>; JavaScript truthiness is written out
    where the source tests it.
  \<^item> A settled promise, and any call that may throw, is a value of \<open>exn + 'a\<close>: \<open>Inl\<close> is the
    rejection (the thrown value), \<open>Inr\<close> the result. A \<^verbatim>\<open>try\<close>/\<^verbatim>\<open>catch\<close> is \<open>try_catch\<close>.
  \<^item> Mutable fields of a service object are a record that each method takes and returns.
  \<^item> What a method asks of the outside world (a notification, a timer, a fetch) is returned
    as a value next to the new state; what the outside world answers is an argument.
\<close>

datatype exn = Error string

definition try_catch :: "(exn + 'a) \<Rightarrow> (exn \<Rightarrow> exn + 'a) \<Rightarrow> exn + 'a" where
  "try_catch body handler = (case body of Inl e \<Rightarrow> handler e | Inr v \<Rightarrow> Inr v)"

subsection \<open>Rendering numbers in template strings\<close>

text \<open>The decimal digit of a number below ten.\<close>

definition digit_char :: "nat \<Rightarrow> char" where
  "digit_char n = ''0123456789'' ! n"

function show_nat :: "nat \<Rightarrow> string" where
  "show_nat n = (if n < 10 then [digit_char n] else show_nat (n div 10) @ [digit_char (n mod 10)])"
  by pat_completeness auto
termination
  by (relation "measure (\<lambda>n. n)") auto

declare show_nat.simps [simp del]

text \<open>The decimal rendering of an integer-valued number, as \<^verbatim>\<open>`${n}`\<close> gives it.\<close>

definition show_int :: "int \<Rightarrow> string" where
  "show_int i = (if i < 0 then ''-'' @ show_nat (nat (- i)) else show_nat (nat i))"

text \<open>\<^verbatim>\<open>Math.round\<close>: the nearest integer, a tie going up.\<close>

definition Math_round :: "real \<Rightarrow> int" where
  "Math_round x = \<lfloor>x + 1 / 2\<rfloor>"


section \<open>Shared types (src/types/usage.ts)\<close>

datatype status = Safe | Warning | Critical

fun status_str :: "status \<Rightarrow> string" where
  "status_str Safe = ''safe''"
| "status_str Warning = ''warning''"
| "status_str Critical = ''critical''"

datatype CostSource = Today | SessionWindow

datatype DisplayMode = Both | Percentage | Cost

record ModelUsage =
  tokens :: real
  cost :: real

record DailyUsage =
  date :: string
  totalTokens :: real
  totalCost :: real
  models :: "(string \<times> ModelUsage) list"

record WindowUtilization =
  utilization :: real
  resetsAt :: string
  formattedTimeRemaining :: string

record OpusUtilization =
  utilization :: real
  resetsAt :: "string option"
  formattedTimeRemaining :: string

record ExtraUsage =
  isEnabled :: bool
  monthlyLimit :: "real option"
  usedCredits :: "real option"
  utilization :: "real option"

record OAuthUtilization =
  fiveHour :: WindowUtilization
  sevenDay :: WindowUtilization
  sevenDaySonnet :: "real option"
  sevenDayOpus :: "OpusUtilization option"
  extraUsage :: "ExtraUsage option"
  isAvailable :: bool

record UsageStats =
  today :: DailyUsage
  thisWeek :: "DailyUsage list"
  oauthUtilization :: "OAuthUtilization option"

record Thresholds =
  warning :: real
  critical :: real

text \<open>\<^verbatim>\<open>Partial<UserConfiguration>\<close>: every field may be absent.\<close>

record UserConfiguration =
  menuBarCostSource :: "CostSource option"
  menuBarDisplayMode :: "DisplayMode option"
  notificationThresholds :: "Thresholds option"

record MenuBarData =
  percentageUsed :: real
  cost :: real
  status :: status
  oauthUtilization :: "OAuthUtilization option"


section \<open>ClaudeOAuthService (src/services/claudeOAuthService.ts)\<close>

record ClaudeUsageLimit =
  utilization :: real
  resets_at :: "string option"

record ClaudeExtraUsage =
  is_enabled :: bool
  monthly_limit :: "real option"
  used_credits :: "real option"
  utilization :: "real option"

text \<open>
  A response body as \<^verbatim>\<open>response.json()\<close> delivers it, before it is validated: either
  mandatory window may be missing.
\<close>

record RawUsageData =
  raw_five_hour :: "ClaudeUsageLimit option"
  raw_seven_day :: "ClaudeUsageLimit option"
  raw_seven_day_sonnet :: "ClaudeUsageLimit option"
  raw_seven_day_opus :: "ClaudeUsageLimit option"
  raw_seven_day_oauth_apps :: "ClaudeUsageLimit option"
  raw_extra_usage :: "ClaudeExtraUsage option"

record ClaudeUsageData =
  five_hour :: ClaudeUsageLimit
  seven_day :: ClaudeUsageLimit
  seven_day_sonnet :: "ClaudeUsageLimit option"
  seven_day_opus :: "ClaudeUsageLimit option"
  seven_day_oauth_apps :: "ClaudeUsageLimit option"
  extra_usage :: "ClaudeExtraUsage option"

record OAuthToken =
  accessToken :: string
  refreshToken :: "string option"
  expiresAt :: "string option"

record ClaudeCredentials =
  claudeAiOauth :: "OAuthToken option"

record ClaudeOAuthService =
  cachedUsage :: "ClaudeUsageData option"
  lastFetch :: int

definition OAUTH_CACHE_DURATION :: int where
  "OAUTH_CACHE_DURATION = 30000"

definition initialClaudeOAuthService :: ClaudeOAuthService where
  "initialClaudeOAuthService = \<lparr>cachedUsage = None, lastFetch = 0\<rparr>"

text \<open>The HTTP response, as far as the method reads it.\<close>

record Response =
  ok :: bool
  http_status :: int
  statusText :: string
  json :: "exn + RawUsageData option"

text \<open>
  What the outside world answers to one call of \<open>getUsageData\<close>:
  \<^item> \<open>execAsync\<close>: the outcome of the \<^verbatim>\<open>security find-generic-password\<close> command, its
    standard output or a rejection;
  \<^item> \<open>JSON_parse_trimmed\<close>: \<^verbatim>\<open>JSON.parse(stdout.trim())\<close> as a function of the output; it
    throws, or yields a value, \<open>None\<close> being the JSON value \<^verbatim>\<open>null\<close>;
  \<^item> \<open>fetch\<close>: the outcome of the GET request, as a function of the bearer token. The body
    \<open>json\<close> of a response rejects when it cannot be parsed, and is \<open>None\<close> when it is the
    JSON value \<^verbatim>\<open>null\<close>.
\<close>

record OAuthWorld =
  execAsync :: "exn + string"
  JSON_parse_trimmed :: "string \<Rightarrow> exn + ClaudeCredentials option"
  fetch :: "string \<Rightarrow> exn + Response"

text \<open>The arguments of the calls of \<^verbatim>\<open>console.error\<close>.\<close>

datatype log_entry =
    NoAccessTokenFound
  | KeychainFailed exn
  | ApiReturned int string
  | InvalidStructure RawUsageData
  | FetchFailed exn

datatype effect = Exec | HttpGet string | ConsoleError log_entry

text \<open>Reading a property of \<^verbatim>\<open>null\<close> throws a \<^verbatim>\<open>TypeError\<close>.\<close>

definition TypeError :: exn where
  "TypeError = Error ''TypeError''"

text \<open>
  \<open>getAccessToken\<close>: the whole body is inside \<^verbatim>\<open>try\<close>. A token that is the empty string is
  falsy, like a missing one.
\<close>

definition getAccessToken :: "OAuthWorld \<Rightarrow> (exn + string option) \<times> effect list" where
  "getAccessToken w =
     (case try_catch
        (case execAsync w of
           Inl e \<Rightarrow> Inl e
         | Inr stdout \<Rightarrow>
            (case JSON_parse_trimmed w stdout of
               Inl e \<Rightarrow> Inl e
             | Inr None \<Rightarrow> Inl TypeError
             | Inr (Some credentials) \<Rightarrow>
                (case claudeAiOauth credentials of
                   None \<Rightarrow> Inr (None, [ConsoleError NoAccessTokenFound])
                 | Some oauth \<Rightarrow>
                     if accessToken oauth \<noteq> [] then Inr (Some (accessToken oauth), [])
                     else Inr (None, [ConsoleError NoAccessTokenFound]))))
        (\<lambda>error. Inr (None, [ConsoleError (KeychainFailed error)]))
      of Inl e \<Rightarrow> (Inl e, [Exec])
       | Inr (token, logs) \<Rightarrow> (Inr token, Exec # logs))"

text \<open>The test \<^verbatim>\<open>!data.five_hour || !data.seven_day\<close>, and the body once it has passed it.\<close>

definition validated :: "RawUsageData \<Rightarrow> ClaudeUsageData option" where
  "validated raw =
     (case raw_five_hour raw of
        None \<Rightarrow> None
      | Some fh \<Rightarrow>
         (case raw_seven_day raw of
            None \<Rightarrow> None
          | Some sd \<Rightarrow>
              Some \<lparr>five_hour = fh, seven_day = sd,
                    seven_day_sonnet = raw_seven_day_sonnet raw,
                    seven_day_opus = raw_seven_day_opus raw,
                    seven_day_oauth_apps = raw_seven_day_oauth_apps raw,
                    extra_usage = raw_extra_usage raw\<rparr>))"

definition oauthCacheFresh :: "int \<Rightarrow> ClaudeOAuthService \<Rightarrow> bool" where
  "oauthCacheFresh now s = (cachedUsage s \<noteq> None \<and> now - lastFetch s < OAUTH_CACHE_DURATION)"

text \<open>
  The \<^verbatim>\<open>try\<close> block of \<open>getUsageData\<close> with its \<^verbatim>\<open>catch\<close>, for a token in hand. Every path
  starts with the one GET request.
\<close>

definition fetchUsage ::
  "int \<Rightarrow> OAuthWorld \<Rightarrow> string \<Rightarrow> ClaudeOAuthService
     \<Rightarrow> exn + (ClaudeUsageData option \<times> ClaudeOAuthService \<times> effect list)" where
  "fetchUsage now w token s =
     try_catch
       (case fetch w token of
          Inl e \<Rightarrow> Inl e
        | Inr response \<Rightarrow>
            if \<not> ok response then
              Inr (None, s,
                   [HttpGet token,
                    ConsoleError (ApiReturned (http_status response) (statusText response))])
            else
              (case json response of
                 Inl e \<Rightarrow> Inl e
               | Inr None \<Rightarrow> Inl TypeError
               | Inr (Some raw) \<Rightarrow>
                  (case validated raw of
                     None \<Rightarrow> Inr (None, s, [HttpGet token, ConsoleError (InvalidStructure raw)])
                   | Some data \<Rightarrow>
                       Inr (Some data, s\<lparr>cachedUsage := Some data, lastFetch := now\<rparr>,
                            [HttpGet token]))))
       (\<lambda>error. Inr (None, s, [HttpGet token, ConsoleError (FetchFailed error)]))"

text \<open>
  \<open>getUsageData now w s\<close>: the settled value of the promise (\<open>Inl\<close> were a rejection),
  the new state, and what the call did, in order.
\<close>

definition getUsageData ::
  "int \<Rightarrow> OAuthWorld \<Rightarrow> ClaudeOAuthService
     \<Rightarrow> (exn + ClaudeUsageData option) \<times> ClaudeOAuthService \<times> effect list" where
  "getUsageData now w s =
     (if oauthCacheFresh now s then (Inr (cachedUsage s), s, [])
      else
        (case getAccessToken w of
           (Inl e, effs) \<Rightarrow> (Inl e, s, effs)
         | (Inr None, effs) \<Rightarrow> (Inr None, s, effs)
         | (Inr (Some token), effs) \<Rightarrow>
            (case fetchUsage now w token s of
               Inl e \<Rightarrow> (Inl e, s, effs)
             | Inr (result, s', effs') \<Rightarrow> (Inr result, s', effs @ effs'))))"

definition httpCalls :: "effect list \<Rightarrow> string list" where
  "httpCalls effs = concat (map (\<lambda>e. case e of HttpGet t \<Rightarrow> [t] | _ \<Rightarrow> []) effs)"

definition logged :: "effect list \<Rightarrow> log_entry list" where
  "logged effs = concat (map (\<lambda>e. case e of ConsoleError l \<Rightarrow> [l] | _ \<Rightarrow> []) effs)"

text \<open>
  \<open>formatTimeUntilReset now resetsAtMs\<close>: \<open>resetsAtMs\<close> is the time value of the date, \<open>None\<close> for an
  invalid date (\<^verbatim>\<open>NaN\<close>, with which every comparison is false); \<open>now\<close> is the clock.
\<close>

definition formatTimeUntilReset :: "int \<Rightarrow> int option \<Rightarrow> string" where
  "formatTimeUntilReset now resetsAtMs =
     (case resetsAtMs of
        None \<Rightarrow> ''NaNm''
      | Some t \<Rightarrow>
         (let diff = t - now in
          if diff \<le> 0 then ''Resetting...''
          else
            let hours = diff div (1000 * 60 * 60);
                minutes = (diff mod (1000 * 60 * 60)) div (1000 * 60)
            in if hours > 24 then
                 show_int (hours div 24) @ ''d '' @ show_int (hours mod 24) @ ''h''
               else if hours > 0 then show_int hours @ ''h '' @ show_int minutes @ ''m''
               else show_int minutes @ ''m''))"


section \<open>CCUsageService (src/services/ccusageService.ts)\<close>

record ModelBreakdown =
  modelName :: string
  inputTokens :: real
  outputTokens :: real
  cacheCreationTokens :: real
  cacheReadTokens :: real
  cost :: real

record DailyDataEntry =
  date :: string
  inputTokens :: real
  outputTokens :: real
  cacheCreationTokens :: real
  cacheReadTokens :: real
  totalCost :: real
  modelBreakdowns :: "ModelBreakdown list"

text \<open>A \<^verbatim>\<open>Date\<close> field is its time value in milliseconds.\<close>

record SessionBlock =
  id :: string
  startTime :: int
  endTime :: int
  isActive :: bool
  isGap :: "bool option"
  costUSD :: real

record CCUsageService =
  cachedStats :: "UsageStats option"
  lastUpdate :: int
  menuBarCostSource :: CostSource
  sessionBlocks :: "SessionBlock list"

definition CACHE_DURATION :: int where
  "CACHE_DURATION = 3000"

definition initialCCUsageService :: CCUsageService where
  "initialCCUsageService =
     \<lparr>cachedStats = None, lastUpdate = 0, menuBarCostSource = Today, sessionBlocks = []\<rparr>"

text \<open>
  The clock and the date functions as the merge step of one call reads them:
  \<^item> \<open>nowMs\<close>: \<^verbatim>\<open>Date.now()\<close>, the time value of \<^verbatim>\<open>new Date()\<close>;
  \<^item> \<open>todayStr\<close>: \<^verbatim>\<open>new Date().toISOString().split('T')[0]\<close>;
  \<^item> \<open>weekAgo\<close>: the time value of \<^verbatim>\<open>new Date()\<close> after \<^verbatim>\<open>setDate(getDate() - 7)\<close>;
  \<^item> \<open>parseDate\<close>: the time value of \<^verbatim>\<open>new Date(str)\<close>, \<open>None\<close> for an invalid date.
\<close>

record Env =
  nowMs :: int
  todayStr :: string
  weekAgo :: int
  parseDate :: "string \<Rightarrow> int option"

text \<open>The settled outcomes of the three promises handed to \<^verbatim>\<open>Promise.all\<close>.\<close>

record Sources =
  blocks :: "exn + SessionBlock list option"
  dailyData :: "exn + DailyDataEntry list option"
  oauthData :: "exn + ClaudeUsageData option"

datatype request = LoadSessionBlockData | LoadDailyUsageData | OAuthGetUsageData

text \<open>
  \<^verbatim>\<open>await Promise.all([a, b, c])\<close>: the three results when all three resolve, a rejection
  as soon as one rejects (which reason it carries is only logged).
\<close>

definition Promise_all :: "exn + 'a \<Rightarrow> exn + 'b \<Rightarrow> exn + 'c \<Rightarrow> exn + ('a \<times> 'b \<times> 'c)" where
  "Promise_all a b c =
     (case a of
        Inl e \<Rightarrow> Inl e
      | Inr x \<Rightarrow>
         (case b of
            Inl e \<Rightarrow> Inl e
          | Inr y \<Rightarrow> (case c of Inl e \<Rightarrow> Inl e | Inr z \<Rightarrow> Inr (x, y, z))))"

text \<open>\<^verbatim>\<open>acc[key] = value\<close> on an object: a known key keeps its place, a new one comes last.\<close>

fun assign :: "string \<Rightarrow> 'v \<Rightarrow> (string \<times> 'v) list \<Rightarrow> (string \<times> 'v) list" where
  "assign k v [] = [(k, v)]"
| "assign k v ((k', v') # kvs) = (if k = k' then (k, v) # kvs else (k', v') # assign k v kvs)"

definition modelsOf :: "ModelBreakdown list \<Rightarrow> (string \<times> ModelUsage) list" where
  "modelsOf mbs =
     foldl (\<lambda>acc mb.
              assign (modelName mb)
                \<lparr>tokens = ModelBreakdown.inputTokens mb + ModelBreakdown.outputTokens mb
                           + ModelBreakdown.cacheCreationTokens mb
                           + ModelBreakdown.cacheReadTokens mb,
                 ModelUsage.cost = ModelBreakdown.cost mb\<rparr> acc)
       [] (filter (\<lambda>mb. modelName mb \<noteq> ''<synthetic>'') mbs)"

definition processDailyData :: "DailyDataEntry list \<Rightarrow> DailyUsage list" where
  "processDailyData data =
     map (\<lambda>day.
            \<lparr>DailyUsage.date = DailyDataEntry.date day,
             totalTokens = DailyDataEntry.inputTokens day + DailyDataEntry.outputTokens day
                           + DailyDataEntry.cacheCreationTokens day
                           + DailyDataEntry.cacheReadTokens day,
             DailyUsage.totalCost = DailyDataEntry.totalCost day,
             models = modelsOf (modelBreakdowns day)\<rparr>) data"

text \<open>\<^verbatim>\<open>new Date(resets_at || Date.now())\<close>: a missing or empty time stamp is falsy.\<close>

definition resetDate :: "Env \<Rightarrow> string option \<Rightarrow> int option" where
  "resetDate env r =
     (case r of
        None \<Rightarrow> Some (nowMs env)
      | Some str \<Rightarrow> if str = [] then Some (nowMs env) else parseDate env str)"

text \<open>\<^verbatim>\<open>resets_at || ''\<close>.\<close>

definition orEmpty :: "string option \<Rightarrow> string" where
  "orEmpty r = (case r of None \<Rightarrow> [] | Some str \<Rightarrow> str)"

definition formatOAuthData :: "Env \<Rightarrow> ClaudeUsageData option \<Rightarrow> OAuthUtilization" where
  "formatOAuthData env d =
     (case d of
        None \<Rightarrow>
          \<lparr>fiveHour = \<lparr>WindowUtilization.utilization = 0, WindowUtilization.resetsAt = [],
                        WindowUtilization.formattedTimeRemaining = ''Unknown''\<rparr>,
           sevenDay = \<lparr>WindowUtilization.utilization = 0, WindowUtilization.resetsAt = [],
                        WindowUtilization.formattedTimeRemaining = ''Unknown''\<rparr>,
           sevenDaySonnet = None, sevenDayOpus = None, extraUsage = None,
           isAvailable = False\<rparr>
      | Some data \<Rightarrow>
          \<lparr>fiveHour =
             \<lparr>WindowUtilization.utilization = ClaudeUsageLimit.utilization (five_hour data),
              WindowUtilization.resetsAt = orEmpty (resets_at (five_hour data)),
              WindowUtilization.formattedTimeRemaining =
                formatTimeUntilReset (nowMs env) (resetDate env (resets_at (five_hour data)))\<rparr>,
           sevenDay =
             \<lparr>WindowUtilization.utilization = ClaudeUsageLimit.utilization (seven_day data),
              WindowUtilization.resetsAt = orEmpty (resets_at (seven_day data)),
              WindowUtilization.formattedTimeRemaining =
                formatTimeUntilReset (nowMs env) (resetDate env (resets_at (seven_day data)))\<rparr>,
           sevenDaySonnet =
             (case seven_day_sonnet data of
                None \<Rightarrow> None
              | Some l \<Rightarrow> Some (ClaudeUsageLimit.utilization l)),
           sevenDayOpus =
             (case seven_day_opus data of
                None \<Rightarrow> None
              | Some l \<Rightarrow>
                  if ClaudeUsageLimit.utilization l > 0 then
                    Some \<lparr>OpusUtilization.utilization = ClaudeUsageLimit.utilization l,
                          OpusUtilization.resetsAt = resets_at l,
                          OpusUtilization.formattedTimeRemaining =
                            (case resets_at l of
                               None \<Rightarrow> ''N/A''
                             | Some str \<Rightarrow>
                                 if str = [] then ''N/A''
                                 else formatTimeUntilReset (nowMs env) (parseDate env str))\<rparr>
                  else None),
           extraUsage =
             (case extra_usage data of
                None \<Rightarrow> None
              | Some x \<Rightarrow>
                  Some \<lparr>isEnabled = is_enabled x, monthlyLimit = monthly_limit x,
                        usedCredits = used_credits x,
                        ExtraUsage.utilization = ClaudeExtraUsage.utilization x\<rparr>),
           isAvailable = True\<rparr>)"

definition getEmptyDay :: "Env \<Rightarrow> DailyUsage" where
  "getEmptyDay env =
     \<lparr>DailyUsage.date = todayStr env, totalTokens = 0, DailyUsage.totalCost = 0, models = []\<rparr>"

definition getEmptyStats :: "Env \<Rightarrow> UsageStats" where
  "getEmptyStats env =
     \<lparr>today = getEmptyDay env, thisWeek = [], UsageStats.oauthUtilization = None\<rparr>"

text \<open>\<^verbatim>\<open>x || []\<close> on the result of a loader.\<close>

definition orNil :: "'a list option \<Rightarrow> 'a list" where
  "orNil r = (case r of None \<Rightarrow> [] | Some xs \<Rightarrow> xs)"

text \<open>\<^verbatim>\<open>date >= weekAgo\<close> on two dates: false when the parsed date is invalid.\<close>

definition inLastWeek :: "Env \<Rightarrow> DailyUsage \<Rightarrow> bool" where
  "inLastWeek env d =
     (case parseDate env (DailyUsage.date d) of None \<Rightarrow> False | Some t \<Rightarrow> t \<ge> weekAgo env)"

text \<open>The statements of the \<^verbatim>\<open>try\<close> block after the \<^verbatim>\<open>await\<close>, on the three results.\<close>

definition mergeSources ::
  "int \<Rightarrow> Env \<Rightarrow> SessionBlock list option \<Rightarrow> DailyDataEntry list option
     \<Rightarrow> ClaudeUsageData option \<Rightarrow> CCUsageService \<Rightarrow> UsageStats \<times> CCUsageService" where
  "mergeSources now env bs daily oauth s =
     (let processedDaily = processDailyData (orNil daily);
          stats =
            \<lparr>today =
               (case find (\<lambda>d. DailyUsage.date d = todayStr env) processedDaily of
                  Some d \<Rightarrow> d
                | None \<Rightarrow> getEmptyDay env),
             thisWeek = filter (inLastWeek env) processedDaily,
             UsageStats.oauthUtilization =
               (case oauth of None \<Rightarrow> None | Some data \<Rightarrow> Some (formatOAuthData env (Some data)))\<rparr>
      in (stats, s\<lparr>sessionBlocks := orNil bs, cachedStats := Some stats, lastUpdate := now\<rparr>))"

text \<open>The \<^verbatim>\<open>try\<close>/\<^verbatim>\<open>catch\<close> of \<open>getUsageStats\<close>, entered on a cache miss.\<close>

definition fetchStats ::
  "int \<Rightarrow> Env \<Rightarrow> Sources \<Rightarrow> CCUsageService \<Rightarrow> exn + (UsageStats \<times> CCUsageService)" where
  "fetchStats now env src s =
     try_catch
       (case Promise_all (blocks src) (dailyData src) (oauthData src) of
          Inl e \<Rightarrow> Inl e
        | Inr (bs, daily, oauth) \<Rightarrow> Inr (mergeSources now env bs daily oauth s))
       (\<lambda>error. Inr (getEmptyStats env, s))"

definition cacheFresh :: "int \<Rightarrow> CCUsageService \<Rightarrow> bool" where
  "cacheFresh now s = (cachedStats s \<noteq> None \<and> now - lastUpdate s < CACHE_DURATION)"

definition allRequests :: "request list" where
  "allRequests = [LoadSessionBlockData, LoadDailyUsageData, OAuthGetUsageData]"

text \<open>
  \<open>getUsageStats now env src s\<close>: \<open>now\<close> is \<^verbatim>\<open>Date.now()\<close> on entry. The result is the
  settled value of the promise (\<open>Inl\<close> were a rejection), the new state and the fetches the
  call has issued.
\<close>

definition getUsageStats ::
  "int \<Rightarrow> Env \<Rightarrow> Sources \<Rightarrow> CCUsageService
     \<Rightarrow> (exn + UsageStats) \<times> CCUsageService \<times> request list" where
  "getUsageStats now env src s =
     (case (if cacheFresh now s then cachedStats s else None) of
        Some cached \<Rightarrow> (Inr cached, s, [])
      | None \<Rightarrow>
         (case fetchStats now env src s of
            Inl e \<Rightarrow> (Inl e, s, allRequests)
          | Inr (stats, s') \<Rightarrow> (Inr stats, s', allRequests)))"

definition updateConfiguration :: "UserConfiguration \<Rightarrow> CCUsageService \<Rightarrow> CCUsageService" where
  "updateConfiguration config s =
     (case UserConfiguration.menuBarCostSource config of
        Some src \<Rightarrow> s\<lparr>CCUsageService.menuBarCostSource := src\<rparr>
      | None \<Rightarrow> s)\<lparr>cachedStats := None\<rparr>"

definition getStatus :: "real \<Rightarrow> status" where
  "getStatus pct = (if pct \<ge> 90 then Critical else if pct \<ge> 70 then Warning else Safe)"

text \<open>\<^verbatim>\<open>block.costUSD || 0\<close>.\<close>

definition orZero :: "real \<Rightarrow> real" where
  "orZero c = (if c = 0 then 0 else c)"

text \<open>
  The \<^verbatim>\<open>for\<close> loop of \<open>getSessionWindowCost\<close>, \<open>acc\<close> being \<^verbatim>\<open>total\<close>. The statement
  \<^verbatim>\<open>total += block.costUSD || 0\<close> adds with the addition of the number type, \<open>add\<close>.
\<close>

fun sumWindow ::
  "(real \<Rightarrow> real \<Rightarrow> real) \<Rightarrow> int \<Rightarrow> SessionBlock list \<Rightarrow> real \<Rightarrow> real" where
  "sumWindow add windowStart [] acc = acc"
| "sumWindow add windowStart (block # rest) acc =
     (if isGap block = Some True then sumWindow add windowStart rest acc
      else if startTime block \<ge> windowStart then
        sumWindow add windowStart rest (add acc (orZero (costUSD block)))
      else sumWindow add windowStart rest acc)"

text \<open>\<open>getSessionWindowCost add now s\<close>: \<open>now\<close> is the time value of \<^verbatim>\<open>new Date()\<close>.\<close>

definition getSessionWindowCost ::
  "(real \<Rightarrow> real \<Rightarrow> real) \<Rightarrow> int \<Rightarrow> CCUsageService \<Rightarrow> real" where
  "getSessionWindowCost add now s =
     (if sessionBlocks s = [] then 0
      else sumWindow add (now - 5 * 60 * 60 * 1000) (sessionBlocks s) 0)"

text \<open>
  \<open>getMenuBarData add now env src clock s\<close>: \<open>now\<close>, \<open>env\<close> and \<open>src\<close> go to
  \<open>getUsageStats\<close>; \<open>clock\<close> is the time \<open>getSessionWindowCost\<close> reads afterwards, and
  \<open>add\<close> the addition it adds the costs with.
\<close>

definition getMenuBarData ::
  "(real \<Rightarrow> real \<Rightarrow> real) \<Rightarrow> int \<Rightarrow> Env \<Rightarrow> Sources \<Rightarrow> int \<Rightarrow> CCUsageService
     \<Rightarrow> (exn + MenuBarData) \<times> CCUsageService \<times> request list" where
  "getMenuBarData add now env src clock s =
     (case getUsageStats now env src s of
        (Inl e, s', reqs) \<Rightarrow> (Inl e, s', reqs)
      | (Inr stats, s', reqs) \<Rightarrow>
          (let pct =
                 (case UsageStats.oauthUtilization stats of
                    None \<Rightarrow> 0
                  | Some u \<Rightarrow>
                      if isAvailable u then WindowUtilization.utilization (fiveHour u) else 0);
               c = (if CCUsageService.menuBarCostSource s' = SessionWindow
                    then getSessionWindowCost add clock s'
                    else DailyUsage.totalCost (today stats))
           in (Inr \<lparr>percentageUsed = pct, MenuBarData.cost = c, status = getStatus pct,
                    oauthUtilization = UsageStats.oauthUtilization stats\<rparr>, s', reqs)))"

text \<open>
  Calls that overlap. An \<^verbatim>\<open>async\<close> method runs without interruption up to its \<^verbatim>\<open>await\<close> and
  again from there once the promise has settled; other calls may run in between.
  \<open>callBegin\<close> is \<open>getUsageStats\<close> up to the \<^verbatim>\<open>await\<close> (or to the \<^verbatim>\<open>return\<close> of the cached
  value), \<open>callEnd\<close> the rest of a call that went to fetch. \<open>outstanding\<close> counts the calls
  that wait for their fetches, \<open>issued\<close> lists the fetches started so far.
\<close>

record Loop =
  service :: CCUsageService
  outstanding :: nat
  issued :: "request list"

definition initialLoop :: Loop where
  "initialLoop = \<lparr>service = initialCCUsageService, outstanding = 0, issued = []\<rparr>"

definition callBegin :: "int \<Rightarrow> Loop \<Rightarrow> Loop" where
  "callBegin now l =
     (if cacheFresh now (service l) then l
      else l\<lparr>outstanding := outstanding l + 1, issued := issued l @ allRequests\<rparr>)"

definition callEnd :: "int \<Rightarrow> Env \<Rightarrow> Sources \<Rightarrow> Loop \<Rightarrow> Loop" where
  "callEnd now env src l =
     (case fetchStats now env src (service l) of
        Inl e \<Rightarrow> l\<lparr>outstanding := outstanding l - 1\<rparr>
      | Inr (stats, s') \<Rightarrow> l\<lparr>service := s', outstanding := outstanding l - 1\<rparr>)"


section \<open>NotificationService (src/services/notificationService.ts)\<close>

record NotificationService =
  lastNotificationTime :: int
  lastWarningLevel :: status
  lastNotificationData :: string
  notificationInProgress :: bool

definition NOTIFICATION_COOLDOWN :: int where
  "NOTIFICATION_COOLDOWN = 300000"

text \<open>The field initialisers of the class.\<close>

definition initialNotificationService :: NotificationService where
  "initialNotificationService =
     \<lparr>lastNotificationTime = 0, lastWarningLevel = Safe, lastNotificationData = '''',
      notificationInProgress = False\<rparr>"

text \<open>The notification handed to \<^verbatim>\<open>sendNotification\<close>.\<close>

record Notification =
  title :: string
  body :: string

definition dataIdentifier :: "MenuBarData \<Rightarrow> string" where
  "dataIdentifier data =
     status_str (MenuBarData.status data) @ ''-'' @ show_int (Math_round (percentageUsed data))"

text \<open>
  \<open>shouldNotify\<close>, \<open>title\<close> and \<open>body\<close> after the two edge tests: \<open>None\<close> is
  \<open>shouldNotify = false\<close>.
\<close>

definition edgeNotification :: "MenuBarData \<Rightarrow> status \<Rightarrow> Notification option" where
  "edgeNotification data lastLevel =
     (if MenuBarData.status data = Critical \<and> lastLevel \<noteq> Critical then
        Some \<lparr>title = ''Claude Meter: Usage Critical'',
              body = ''You've used '' @ show_int (Math_round (percentageUsed data))
                     @ ''% of your tokens. Consider upgrading your plan.''\<rparr>
      else if MenuBarData.status data = Warning \<and> lastLevel = Safe then
        Some \<lparr>title = ''Claude Meter: Usage Warning'',
              body = ''You've used '' @ show_int (Math_round (percentageUsed data))
                     @ ''% of your tokens. Monitor your usage carefully.''\<rparr>
      else None)"

text \<open>
  \<open>checkAndNotify now data s\<close>: \<open>now\<close> is what \<^verbatim>\<open>Date.now()\<close> reads; the second
  parameter of the method, \<^verbatim>\<open>source\<close>, is not read by its body. The result is the new
  state and the notification sent, if one is: the one the method hands to
  \<^verbatim>\<open>sendNotification\<close>, which shows it where the platform supports notifications and
  swallows every error. When one is sent the method also arms a one-second timer, whose
  callback is \<open>releaseLock\<close>.
\<close>

definition checkAndNotify ::
  "int \<Rightarrow> MenuBarData \<Rightarrow> NotificationService \<Rightarrow> NotificationService \<times> Notification option" where
  "checkAndNotify now data s =
     (let timeSinceLastNotification = now - lastNotificationTime s;
          ident = dataIdentifier data
      in if lastNotificationData s = ident \<or> notificationInProgress s then (s, None)
         else if timeSinceLastNotification < NOTIFICATION_COOLDOWN then (s, None)
         else (case edgeNotification data (lastWarningLevel s) of
                 None \<Rightarrow> (s, None)
               | Some n \<Rightarrow>
                   (s\<lparr>notificationInProgress := True,
                      lastNotificationTime := now,
                      lastWarningLevel := MenuBarData.status data,
                      lastNotificationData := ident\<rparr>, Some n)))"

text \<open>The callback of \<^verbatim>\<open>setTimeout(..., 1000)\<close>.\<close>

definition releaseLock :: "NotificationService \<Rightarrow> NotificationService" where
  "releaseLock s = s\<lparr>notificationInProgress := False\<rparr>"

text \<open>
  The service driven by the event loop: a call of \<open>checkAndNotify\<close>, or the lock timer
  running. \<open>fires\<close> lists, call by call, whether the call sent a notification.
\<close>

datatype event = Check int MenuBarData | TimerFired

fun step :: "NotificationService \<Rightarrow> event \<Rightarrow> NotificationService" where
  "step s (Check now data) = fst (checkAndNotify now data s)"
| "step s TimerFired = releaseLock s"

fun fires :: "NotificationService \<Rightarrow> event list \<Rightarrow> bool list" where
  "fires s [] = []"
| "fires s (Check now data # es) =
     (snd (checkAndNotify now data s) \<noteq> None) # fires (step s (Check now data)) es"
| "fires s (TimerFired # es) = fires (step s TimerFired) es"

definition run :: "NotificationService \<Rightarrow> event list \<Rightarrow> NotificationService" where
  "run s es = foldl step s es"

text \<open>The states the service can be in: those that some run from the initial one reaches.\<close>

inductive reachable :: "NotificationService \<Rightarrow> bool" where
  reach_init: "reachable initialNotificationService"
| reach_step: "reachable s \<Longrightarrow> reachable (step s e)"

text \<open>A snapshot as \<open>getMenuBarData\<close> builds it, for use in examples.\<close>

definition snapshot :: "status \<Rightarrow> real \<Rightarrow> MenuBarData" where
  "snapshot st p = \<lparr>percentageUsed = p, cost = 0, status = st, oauthUtilization = None\<rparr>"


text \<open>
  The two edge tests as one predicate on the new status and \<open>lastWarningLevel\<close>, and the
  condition under which a call gets past all three gates (lines 27, 32 and 41 to 49).
\<close>

definition risingEdge :: "status \<Rightarrow> status \<Rightarrow> bool" where
  "risingEdge st lastLevel =
     (st = Critical \<and> lastLevel \<noteq> Critical \<or> st = Warning \<and> lastLevel = Safe)"

definition willFire :: "int \<Rightarrow> MenuBarData \<Rightarrow> NotificationService \<Rightarrow> bool" where
  "willFire now data s =
     (lastNotificationData s \<noteq> dataIdentifier data \<and> \<not> notificationInProgress s
      \<and> NOTIFICATION_COOLDOWN \<le> now - lastNotificationTime s
      \<and> risingEdge (MenuBarData.status data) (lastWarningLevel s))"


section \<open>Scenarios\<close>

text \<open>
  The status sequence safe, warning, critical, critical, warning, safe, critical: the calls
  are 1000 seconds apart, each with a percentage of its own, and the lock timer runs after
  each notification.
\<close>

definition edgeSequence :: "event list" where
  "edgeSequence =
     [Check 1000000 (snapshot Safe 10),
      Check 2000000 (snapshot Warning 75), TimerFired,
      Check 3000000 (snapshot Critical 92), TimerFired,
      Check 4000000 (snapshot Critical 95),
      Check 5000000 (snapshot Warning 80),
      Check 6000000 (snapshot Safe 50),
      Check 7000000 (snapshot Critical 93)]"

text \<open>A warning alert at 1000 s, and the lock timer one second later.\<close>

definition afterWarning :: NotificationService where
  "afterWarning =
     run initialNotificationService [Check 1000000 (snapshot Warning 75), TimerFired]"

text \<open>A warning alert, then a critical alert 1000 s later, and the lock timer.\<close>

definition afterCritical :: NotificationService where
  "afterCritical =
     run initialNotificationService
       [Check 1000000 (snapshot Warning 75), TimerFired,
        Check 2000000 (snapshot Critical 95), TimerFired]"


text \<open>
  Answers of the three sources for the examples: one ledger day (the current one) that cost
  5 dollars, one session block, and a rate-limit answer with 42 percent of the five-hour
  window used.
\<close>

definition sampleEnv :: Env where
  "sampleEnv =
     \<lparr>nowMs = 1700000000000, todayStr = ''2023-11-14'', weekAgo = 1699395200000,
      parseDate = (\<lambda>str. if str = ''2023-11-14'' then Some 1699920000000 else None)\<rparr>"

definition sampleDaily :: "DailyDataEntry list" where
  "sampleDaily =
     [\<lparr>DailyDataEntry.date = ''2023-11-14'', inputTokens = 100, outputTokens = 20,
       cacheCreationTokens = 3, cacheReadTokens = 4, totalCost = 5,
       modelBreakdowns =
         [\<lparr>modelName = ''sonnet'', inputTokens = 100, outputTokens = 20,
           cacheCreationTokens = 3, cacheReadTokens = 4, cost = 5\<rparr>,
          \<lparr>modelName = ''<synthetic>'', inputTokens = 0, outputTokens = 0,
           cacheCreationTokens = 0, cacheReadTokens = 0, cost = 0\<rparr>]\<rparr>]"

definition sampleBlocks :: "SessionBlock list" where
  "sampleBlocks =
     [\<lparr>id = ''b1'', startTime = 1699995000000, endTime = 1700013000000, isActive = True,
       isGap = None, costUSD = 5\<rparr>]"

definition sampleUsage :: ClaudeUsageData where
  "sampleUsage =
     \<lparr>five_hour = \<lparr>ClaudeUsageLimit.utilization = 42, resets_at = None\<rparr>,
      seven_day = \<lparr>ClaudeUsageLimit.utilization = 17, resets_at = None\<rparr>,
      seven_day_sonnet = None, seven_day_opus = None, seven_day_oauth_apps = None,
      extra_usage = None\<rparr>"

definition allResolved :: Sources where
  "allResolved =
     \<lparr>blocks = Inr (Some sampleBlocks), dailyData = Inr (Some sampleDaily),
      oauthData = Inr (Some sampleUsage)\<rparr>"

text \<open>The same answers, but the session-block loader rejects.\<close>

definition blocksRejected :: Sources where
  "blocksRejected = allResolved\<lparr>blocks := Inl (Error ''ENOENT'')\<rparr>"

text \<open>The same answers, but the rate-limit client has no data.\<close>

definition oauthAbsent :: Sources where
  "oauthAbsent = allResolved\<lparr>oauthData := Inr None\<rparr>"

text \<open>The three blocks of the session-window example, at the clock reading \<open>now\<close>.\<close>

definition hourMs :: int where
  "hourMs = 60 * 60 * 1000"

definition windowBlocks :: "int \<Rightarrow> SessionBlock list" where
  "windowBlocks now =
     [\<lparr>id = ''a'', startTime = now - 6 * hourMs, endTime = now - hourMs, isActive = False,
       isGap = Some False, costUSD = 5\<rparr>,
      \<lparr>id = ''b'', startTime = now - 2 * hourMs, endTime = now + 3 * hourMs, isActive = True,
       isGap = Some False, costUSD = 3\<rparr>,
      \<lparr>id = ''c'', startTime = now - hourMs, endTime = now, isActive = False,
       isGap = Some True, costUSD = 2\<rparr>]"

text \<open>Two partial configurations: one that sets nothing, one that selects the session window.\<close>

definition emptyConfig :: UserConfiguration where
  "emptyConfig =
     \<lparr>UserConfiguration.menuBarCostSource = None, menuBarDisplayMode = None,
      notificationThresholds = None\<rparr>"

definition sessionWindowConfig :: UserConfiguration where
  "sessionWindowConfig = emptyConfig\<lparr>UserConfiguration.menuBarCostSource := Some SessionWindow\<rparr>"

text \<open>
  Two calls that overlap: the first begins at 0, the second at 2000 ms; the second comes back
  from its fetches first (without rate-limit data), the first after it.
\<close>

definition overlappedCalls :: Loop where
  "overlappedCalls =
     callEnd 0 sampleEnv allResolved
       (callEnd 2000 sampleEnv oauthAbsent (callBegin 2000 (callBegin 0 initialLoop)))"

text \<open>
  A call that begins at 0 and is still waiting for its fetches when \<open>updateConfiguration\<close>
  runs; it comes back afterwards.
\<close>

definition fetchAcrossUpdate :: Loop where
  "fetchAcrossUpdate =
     callEnd 0 sampleEnv allResolved
       ((callBegin 0 initialLoop)
          \<lparr>service := updateConfiguration sessionWindowConfig (service (callBegin 0 initialLoop))\<rparr>)"

text \<open>
  Answers of the keychain and of the rate-limit API for the examples: a keychain without the
  entry; a keychain with a token, and an API that answers 401, an unreadable body, a body
  without the seven-day window, or a complete body.
\<close>

definition sampleLimit :: ClaudeUsageLimit where
  "sampleLimit = \<lparr>ClaudeUsageLimit.utilization = 42, resets_at = None\<rparr>"

definition completeBody :: RawUsageData where
  "completeBody =
     \<lparr>raw_five_hour = Some sampleLimit, raw_seven_day = Some sampleLimit,
      raw_seven_day_sonnet = None, raw_seven_day_opus = None, raw_seven_day_oauth_apps = None,
      raw_extra_usage = None\<rparr>"

definition noSevenDay :: RawUsageData where
  "noSevenDay = completeBody\<lparr>raw_seven_day := None\<rparr>"

definition okResponse :: "exn + RawUsageData option \<Rightarrow> Response" where
  "okResponse b = \<lparr>ok = True, http_status = 200, statusText = ''OK'', json = b\<rparr>"

definition unauthorized :: Response where
  "unauthorized =
     \<lparr>ok = False, http_status = 401, statusText = ''Unauthorized'',
      json = Inr (Some completeBody)\<rparr>"

definition noKeychainEntry :: OAuthWorld where
  "noKeychainEntry =
     \<lparr>execAsync = Inl (Error ''Command failed''),
      JSON_parse_trimmed = (\<lambda>out. Inl (Error ''SyntaxError'')),
      fetch = (\<lambda>token. Inr (okResponse (Inr (Some completeBody))))\<rparr>"

definition withToken :: "Response \<Rightarrow> OAuthWorld" where
  "withToken response =
     \<lparr>execAsync = Inr ''{...}'',
      JSON_parse_trimmed =
        (\<lambda>out. Inr (Some \<lparr>claudeAiOauth =
                  Some \<lparr>accessToken = ''tok'', refreshToken = None, expiresAt = None\<rparr>\<rparr>)),
      fetch = (\<lambda>token. Inr response)\<rparr>"

text \<open>The service 10 seconds after a fetch that has filled its cache.\<close>

definition cachedService :: ClaudeOAuthService where
  "cachedService =
     fst (snd (getUsageData 100000 (withToken (okResponse (Inr (Some completeBody))))
       initialClaudeOAuthService))"


section \<open>Properties of NotificationService\<close>

lemmas notif_eval = checkAndNotify_def dataIdentifier_def edgeNotification_def
  NOTIFICATION_COOLDOWN_def releaseLock_def Let_def initialNotificationService_def snapshot_def
  Math_round_def show_int_def show_nat.simps digit_char_def run_def

lemma edgeNotification_None:
  "(edgeNotification data l = None) = (\<not> risingEdge (MenuBarData.status data) l)"
  by (auto simp: edgeNotification_def risingEdge_def)

lemma snd_checkAndNotify:
  "(snd (checkAndNotify now data s) = None) = (\<not> willFire now data s)"
proof (cases "edgeNotification data (lastWarningLevel s)")
  case None
  then show ?thesis
    using edgeNotification_None [of data "lastWarningLevel s"]
    by (simp add: checkAndNotify_def willFire_def Let_def)
next
  case (Some n)
  then show ?thesis
    using edgeNotification_None [of data "lastWarningLevel s"]
    by (auto simp: checkAndNotify_def willFire_def Let_def)
qed

lemma fst_checkAndNotify:
  "fst (checkAndNotify now data s) =
     (if willFire now data s then
        \<lparr>lastNotificationTime = now, lastWarningLevel = MenuBarData.status data,
         lastNotificationData = dataIdentifier data, notificationInProgress = True\<rparr>
      else s)"
proof (cases "edgeNotification data (lastWarningLevel s)")
  case None
  then show ?thesis
    using edgeNotification_None [of data "lastWarningLevel s"]
    by (simp add: checkAndNotify_def willFire_def Let_def)
next
  case (Some n)
  then show ?thesis
    using edgeNotification_None [of data "lastWarningLevel s"]
    by (auto simp: checkAndNotify_def willFire_def Let_def)
qed

lemma checkAndNotify_blocked:
  "\<not> willFire now data s \<Longrightarrow> checkAndNotify now data s = (s, None)"
  using snd_checkAndNotify [of now data s] fst_checkAndNotify [of now data s]
  by (simp add: prod_eq_iff)

lemma dataIdentifier_not_empty: "dataIdentifier data \<noteq> []"
  by (cases "MenuBarData.status data") (simp_all add: dataIdentifier_def)

lemma dataIdentifier_status:
  "dataIdentifier d = dataIdentifier d' \<Longrightarrow> MenuBarData.status d = MenuBarData.status d'"
  by (cases "MenuBarData.status d"; cases "MenuBarData.status d'")
     (simp_all add: dataIdentifier_def)

lemma reachable_run: "reachable s \<Longrightarrow> reachable (run s es)"
  unfolding run_def
  by (induction es arbitrary: s) (auto intro: reachable.intros)

text \<open>
  Once a critical alert has been sent no call sends anything any more: \<open>lastWarningLevel\<close>
  is written only when a notification is sent, so it stays \<open>Critical\<close>.
\<close>

lemma critical_is_final:
  "lastWarningLevel s = Critical \<Longrightarrow> checkAndNotify now data s = (s, None)"
  by (rule checkAndNotify_blocked) (simp add: willFire_def risingEdge_def)

lemma afterWarning_eq:
  "afterWarning =
     \<lparr>lastNotificationTime = 1000000, lastWarningLevel = Warning,
      lastNotificationData = ''warning-75'', notificationInProgress = False\<rparr>"
  by (simp add: afterWarning_def notif_eval)

lemma afterCritical_eq:
  "afterCritical =
     \<lparr>lastNotificationTime = 2000000, lastWarningLevel = Critical,
      lastNotificationData = ''critical-95'', notificationInProgress = False\<rparr>"
  by (simp add: afterCritical_def notif_eval)


subsection \<open>C2: the edge sequence\<close>

text \<open>
  C2, as it is stated, fails. On the sequence safe, warning, critical, critical, warning,
  safe, critical, each call with its own identifier and outside the cooldown, the warning and
  the first critical send a notification, and the final critical does not: the calls with
  status warning and safe in between send nothing and so leave \<open>lastWarningLevel\<close> at
  \<open>Critical\<close>.
\<close>

theorem C2_final_critical_silent:
  "fires initialNotificationService edgeSequence
     = [False, True, True, False, False, False, False]
   \<and> fires initialNotificationService edgeSequence
     \<noteq> [False, True, True, False, False, False, True]"
  by (simp add: edgeSequence_def notif_eval)

text \<open>
  C2 as amended: from the initial state, on any seven snapshots with the statuses safe,
  warning, critical, critical, warning, safe, critical, the warning and the first critical
  arriving outside the cooldown (and the lock timer having run after each notification),
  exactly the warning and the first critical send a notification. The second critical, the
  return to warning, the return to safe and the final critical send none, whatever their
  times and identifiers are.
\<close>

theorem C2_edge_sequence:
  assumes st: "MenuBarData.status d1 = Safe" "MenuBarData.status d2 = Warning"
    "MenuBarData.status d3 = Critical" "MenuBarData.status d4 = Critical"
    "MenuBarData.status d5 = Warning" "MenuBarData.status d6 = Safe"
    "MenuBarData.status d7 = Critical"
    and t: "NOTIFICATION_COOLDOWN \<le> t2" "NOTIFICATION_COOLDOWN \<le> t3 - t2"
  shows "fires initialNotificationService
           [Check t1 d1, Check t2 d2, TimerFired, Check t3 d3, TimerFired, Check t4 d4,
            Check t5 d5, Check t6 d6, Check t7 d7]
         = [False, True, True, False, False, False, False]"
proof -
  have ne: "dataIdentifier d2 \<noteq> dataIdentifier d3"
    using dataIdentifier_status [of d2 d3] st by auto
  have e: "[] \<noteq> dataIdentifier d2"
    using dataIdentifier_not_empty [of d2] by simp
  show ?thesis
    using st t ne e
    by (simp add: snd_checkAndNotify fst_checkAndNotify willFire_def risingEdge_def
        initialNotificationService_def releaseLock_def)
qed

theorem C2_edge_sequence_witness:
  "MenuBarData.status (snapshot Safe 10) = Safe
   \<and> MenuBarData.status (snapshot Warning 75) = Warning
   \<and> MenuBarData.status (snapshot Critical 92) = Critical
   \<and> NOTIFICATION_COOLDOWN \<le> 2000000 \<and> NOTIFICATION_COOLDOWN \<le> 3000000 - 2000000
   \<and> fires initialNotificationService
        [Check 1000000 (snapshot Safe 10), Check 2000000 (snapshot Warning 75), TimerFired,
         Check 3000000 (snapshot Critical 92), TimerFired, Check 4000000 (snapshot Critical 95),
         Check 5000000 (snapshot Warning 80), Check 6000000 (snapshot Safe 50),
         Check 7000000 (snapshot Critical 93)]
       = [False, True, True, False, False, False, False]"
proof -
  have s: "MenuBarData.status (snapshot Safe 10) = Safe"
    "MenuBarData.status (snapshot Warning 75) = Warning"
    "MenuBarData.status (snapshot Critical 92) = Critical"
    "MenuBarData.status (snapshot Critical 95) = Critical"
    "MenuBarData.status (snapshot Warning 80) = Warning"
    "MenuBarData.status (snapshot Safe 50) = Safe"
    "MenuBarData.status (snapshot Critical 93) = Critical"
    by (simp_all add: snapshot_def)
  have t: "NOTIFICATION_COOLDOWN \<le> 2000000" "NOTIFICATION_COOLDOWN \<le> 3000000 - 2000000"
    by (simp_all add: NOTIFICATION_COOLDOWN_def)
  show ?thesis
    using C2_edge_sequence [OF s t, of 1000000 4000000 5000000 6000000 7000000] s t
    by simp
qed


subsection \<open>C3: the identifier gate\<close>

text \<open>
  C3, as it is stated, fails. After a warning alert at 1000 s, a critical snapshot at 1100 s
  is stopped by the cooldown; it leaves no trace, so a second critical snapshot with the same
  identifier (94.6 and 95.4 both round to 95) at 1400 s, past the cooldown, sends a
  notification. The state before the two calls is reachable.
\<close>

theorem C3_second_call_fires:
  "reachable afterWarning
   \<and> dataIdentifier (snapshot Critical 94.6) = dataIdentifier (snapshot Critical 95.4)
   \<and> fires afterWarning
        [Check 1100000 (snapshot Critical 94.6), Check 1400000 (snapshot Critical 95.4)]
      = [False, True]"
proof -
  have "reachable afterWarning"
    unfolding afterWarning_def by (rule reachable_run) (rule reachable.reach_init)
  then show ?thesis
    by (simp add: afterWarning_eq notif_eval)
qed

text \<open>
  C3 as amended: in every state (reachable or not), of two consecutive calls whose snapshots
  produce the same data identifier at most one sends a notification. When the first call
  sends one, the second sends none, whatever the times of the two calls are and whether or
  not the lock timer has run in between; and a call whose identifier is the one recorded in
  \<open>lastNotificationData\<close> never sends one. (When the first call is stopped, nothing is
  recorded, and the second call may send the notification.)
\<close>

theorem C3_identifier_gate:
  assumes "dataIdentifier d1 = dataIdentifier d2"
  shows "(snd (checkAndNotify t1 d1 s) \<noteq> None \<longrightarrow>
            snd (checkAndNotify t2 d2 (fst (checkAndNotify t1 d1 s))) = None
          \<and> snd (checkAndNotify t2 d2 (releaseLock (fst (checkAndNotify t1 d1 s)))) = None)
       \<and> (lastNotificationData s = dataIdentifier d2 \<longrightarrow> snd (checkAndNotify t2 d2 s) = None)"
  using assms
  by (simp add: snd_checkAndNotify fst_checkAndNotify willFire_def releaseLock_def)

theorem C3_identifier_gate_witness:
  "dataIdentifier (snapshot Warning 74.6) = dataIdentifier (snapshot Warning 75.4)
   \<and> snd (checkAndNotify 1000000 (snapshot Warning 74.6) initialNotificationService) \<noteq> None
   \<and> snd (checkAndNotify 2000000 (snapshot Warning 75.4)
            (releaseLock (fst (checkAndNotify 1000000 (snapshot Warning 74.6)
               initialNotificationService)))) = None
   \<and> lastNotificationData afterWarning = dataIdentifier (snapshot Warning 75)
   \<and> snd (checkAndNotify 2000000 (snapshot Warning 75) afterWarning) = None"
proof -
  have i: "dataIdentifier (snapshot Warning 74.6) = dataIdentifier (snapshot Warning 75.4)"
    by (simp add: notif_eval)
  have f: "snd (checkAndNotify 1000000 (snapshot Warning 74.6) initialNotificationService)
             \<noteq> None"
    by (simp add: notif_eval)
  have r: "lastNotificationData afterWarning = dataIdentifier (snapshot Warning 75)"
    by (simp add: afterWarning_eq notif_eval)
  show ?thesis
    using C3_identifier_gate [OF i, of 1000000 initialNotificationService 2000000]
      C3_identifier_gate [of "snapshot Warning 75" "snapshot Warning 75" 0 afterWarning 2000000]
      i f r
    by simp
qed


subsection \<open>C5: the cooldown\<close>

text \<open>
  C5: a call of \<open>checkAndNotify\<close> made less than the cooldown of 5 minutes (300000 ms) after
  \<open>lastNotificationTime\<close> sends no notification, whatever the snapshot is; the state stays as
  it is. In particular, when a call at time \<open>t\<close> has sent an alert, a later call less than
  5 minutes after \<open>t\<close> sends none, also when its status is worse: the cooldown is tested
  before the severity edge.
\<close>

theorem C5_cooldown:
  "NOTIFICATION_COOLDOWN = 5 * 60 * 1000
   \<and> (now - lastNotificationTime s < NOTIFICATION_COOLDOWN \<longrightarrow>
        checkAndNotify now data s = (s, None))
   \<and> (snd (checkAndNotify t earlier s) \<noteq> None \<and> now - t < NOTIFICATION_COOLDOWN \<longrightarrow>
        snd (checkAndNotify now data (fst (checkAndNotify t earlier s))) = None
      \<and> snd (checkAndNotify now data (releaseLock (fst (checkAndNotify t earlier s)))) = None)"
  by (simp add: snd_checkAndNotify fst_checkAndNotify checkAndNotify_blocked willFire_def
      releaseLock_def NOTIFICATION_COOLDOWN_def)

theorem C5_cooldown_witness:
  "1299999 - lastNotificationTime afterWarning < NOTIFICATION_COOLDOWN
   \<and> lastWarningLevel afterWarning = Warning
   \<and> checkAndNotify 1299999 (snapshot Critical 95) afterWarning = (afterWarning, None)
   \<and> snd (checkAndNotify 1000000 (snapshot Warning 75) initialNotificationService) \<noteq> None
   \<and> snd (checkAndNotify 1299999 (snapshot Critical 95)
            (releaseLock (fst (checkAndNotify 1000000 (snapshot Warning 75)
               initialNotificationService)))) = None"
proof -
  have h: "1299999 - lastNotificationTime afterWarning < NOTIFICATION_COOLDOWN"
    by (simp add: afterWarning_eq NOTIFICATION_COOLDOWN_def)
  have l: "lastWarningLevel afterWarning = Warning"
    by (simp add: afterWarning_eq)
  have f: "snd (checkAndNotify 1000000 (snapshot Warning 75) initialNotificationService)
             \<noteq> None"
    by (simp add: notif_eval)
  have g: "(1299999::int) - 1000000 < NOTIFICATION_COOLDOWN"
    by (simp add: NOTIFICATION_COOLDOWN_def)
  show ?thesis
    using C5_cooldown [of 1299999 afterWarning "snapshot Critical 95" 1000000
        "snapshot Warning 75"]
      C5_cooldown [of 1299999 initialNotificationService "snapshot Critical 95" 1000000
        "snapshot Warning 75"] h l f g
    by simp
qed


subsection \<open>C10: a call that sends nothing changes nothing\<close>

text \<open>
  C10: a call of \<open>checkAndNotify\<close> that sends no notification returns the state it was
  given, all four fields. That is so for each way of sending none: the identifier is the
  recorded one, the lock is held, the cooldown has not passed, or there is no rising edge.
  In particular a snapshot with status safe sends nothing and does not reset
  \<open>lastWarningLevel\<close>, and the identifier of a call that was stopped is not recorded.
\<close>

theorem C10_silent_call_keeps_state:
  "(snd (checkAndNotify now data s) = None \<longrightarrow> fst (checkAndNotify now data s) = s)
   \<and> (lastNotificationData s = dataIdentifier data \<or> notificationInProgress s
      \<or> now - lastNotificationTime s < NOTIFICATION_COOLDOWN
      \<or> edgeNotification data (lastWarningLevel s) = None \<longrightarrow>
        checkAndNotify now data s = (s, None))
   \<and> (MenuBarData.status data = Safe \<longrightarrow> checkAndNotify now data s = (s, None))"
proof -
  have a: "snd (checkAndNotify now data s) = None \<longrightarrow> fst (checkAndNotify now data s) = s"
    by (simp add: snd_checkAndNotify fst_checkAndNotify)
  have b: "lastNotificationData s = dataIdentifier data \<or> notificationInProgress s
      \<or> now - lastNotificationTime s < NOTIFICATION_COOLDOWN
      \<or> edgeNotification data (lastWarningLevel s) = None \<longrightarrow>
        checkAndNotify now data s = (s, None)"
    by (auto simp: edgeNotification_None willFire_def intro!: checkAndNotify_blocked)
  have c: "MenuBarData.status data = Safe \<longrightarrow> checkAndNotify now data s = (s, None)"
    by (auto simp: willFire_def risingEdge_def intro!: checkAndNotify_blocked)
  from a b c show ?thesis by blast
qed

theorem C10_silent_call_keeps_state_witness:
  "MenuBarData.status (snapshot Safe 12) = Safe
   \<and> checkAndNotify 9000000 (snapshot Safe 12) afterCritical = (afterCritical, None)
   \<and> lastWarningLevel (fst (checkAndNotify 9000000 (snapshot Safe 12) afterCritical)) = Critical
   \<and> 2100000 - lastNotificationTime afterCritical < NOTIFICATION_COOLDOWN
   \<and> lastNotificationData (fst (checkAndNotify 2100000 (snapshot Warning 80) afterCritical))
       = ''critical-95''"
proof -
  have s: "MenuBarData.status (snapshot Safe 12) = Safe"
    by (simp add: snapshot_def)
  have h: "2100000 - lastNotificationTime afterCritical < NOTIFICATION_COOLDOWN"
    by (simp add: afterCritical_eq NOTIFICATION_COOLDOWN_def)
  show ?thesis
    using C10_silent_call_keeps_state [of 9000000 "snapshot Safe 12" afterCritical]
      C10_silent_call_keeps_state [of 2100000 "snapshot Warning 80" afterCritical] s h
    by (simp add: afterCritical_eq)
qed


section \<open>Properties of CCUsageService\<close>

lemmas usage_eval = getUsageStats_def fetchStats_def try_catch_def Promise_all_def
  mergeSources_def processDailyData_def modelsOf_def orNil_def inLastWeek_def
  formatOAuthData_def resetDate_def orEmpty_def formatTimeUntilReset_def getEmptyStats_def
  getEmptyDay_def cacheFresh_def CACHE_DURATION_def allRequests_def sampleEnv_def
  sampleDaily_def sampleBlocks_def sampleUsage_def allResolved_def blocksRejected_def
  oauthAbsent_def initialCCUsageService_def updateConfiguration_def Let_def

lemma fetchStats_Inr: "\<exists>r. fetchStats now env src s = Inr r"
  by (simp add: fetchStats_def try_catch_def Promise_all_def split: sum.splits prod.splits)

lemma fetchStats_rejected:
  "blocks src = Inl e \<or> dailyData src = Inl e \<or> oauthData src = Inl e \<Longrightarrow>
     fetchStats now env src s = Inr (getEmptyStats env, s)"
  by (auto simp: fetchStats_def try_catch_def Promise_all_def split: sum.splits prod.splits)

lemma fetchStats_resolved:
  "blocks src = Inr bs \<Longrightarrow> dailyData src = Inr daily \<Longrightarrow> oauthData src = Inr oauth \<Longrightarrow>
     fetchStats now env src s = Inr (mergeSources now env bs daily oauth s)"
  by (simp add: fetchStats_def try_catch_def Promise_all_def)

lemma getUsageStats_hit:
  "cacheFresh now s \<Longrightarrow> cachedStats s = Some stats \<Longrightarrow>
     getUsageStats now env src s = (Inr stats, s, [])"
  by (simp add: getUsageStats_def)

lemma getUsageStats_miss:
  "\<not> cacheFresh now s \<Longrightarrow>
     getUsageStats now env src s =
       (case fetchStats now env src s of
          Inl e \<Rightarrow> (Inl e, s, allRequests)
        | Inr (stats, s') \<Rightarrow> (Inr stats, s', allRequests))"
  by (simp add: getUsageStats_def)

lemma getUsageStats_returns: "\<exists>stats. fst (getUsageStats now env src s) = Inr stats"
proof (cases "cacheFresh now s")
  case True
  then obtain c where "cachedStats s = Some c"
    by (auto simp: cacheFresh_def)
  with True show ?thesis
    by (simp add: getUsageStats_hit)
next
  case False
  obtain r where "fetchStats now env src s = Inr r"
    using fetchStats_Inr by blast
  with False show ?thesis
    by (cases r) (simp add: getUsageStats_miss)
qed

lemma getUsageStats_miss_requests:
  "\<not> cacheFresh now s \<Longrightarrow> snd (snd (getUsageStats now env src s)) = allRequests"
  by (simp add: getUsageStats_miss split: sum.splits prod.splits)

lemma getUsageStats_fetched:
  assumes "\<not> cacheFresh now s" "blocks src = Inr bs" "dailyData src = Inr daily"
    "oauthData src = Inr oauth"
  shows "getUsageStats now env src s =
           (Inr (fst (mergeSources now env bs daily oauth s)),
            snd (mergeSources now env bs daily oauth s), allRequests)"
  using assms by (simp add: getUsageStats_miss fetchStats_resolved split: prod.splits)

lemma mergeSources_state:
  "snd (mergeSources now env bs daily oauth s) =
     s\<lparr>sessionBlocks := orNil bs,
       cachedStats := Some (fst (mergeSources now env bs daily oauth s)),
       lastUpdate := now\<rparr>"
  by (simp add: mergeSources_def Let_def)

lemma updateConfiguration_cache: "cachedStats (updateConfiguration config s) = None"
  by (simp add: updateConfiguration_def split: option.splits)

lemma updateConfiguration_thresholds:
  "updateConfiguration (config\<lparr>notificationThresholds := th\<rparr>) s = updateConfiguration config s"
  by (simp add: updateConfiguration_def)

lemma sumWindow_foldl:
  "sumWindow add ws bs acc =
     foldl add acc
       (map costUSD (filter (\<lambda>b. isGap b \<noteq> Some True \<and> ws \<le> startTime b) bs))"
  by (induction bs arbitrary: acc) (auto simp: orZero_def)

lemma getSessionWindowCost_foldl:
  "getSessionWindowCost add now s =
     foldl add 0
       (map costUSD
          (filter (\<lambda>b. isGap b \<noteq> Some True \<and> now - 5 * 60 * 60 * 1000 \<le> startTime b)
             (sessionBlocks s)))"
  by (simp add: getSessionWindowCost_def sumWindow_foldl)

lemma foldl_plus_sum_list: "foldl (+) a xs = a + sum_list (xs :: real list)"
  by (induction xs arbitrary: a) simp_all

lemma getMenuBarData_eq:
  assumes "fst (getUsageStats now env src s) = Inr stats"
  shows "getMenuBarData add now env src clock s =
     (Inr \<lparr>percentageUsed =
             (case UsageStats.oauthUtilization stats of
                None \<Rightarrow> 0
              | Some u \<Rightarrow>
                  if isAvailable u then WindowUtilization.utilization (fiveHour u) else 0),
           MenuBarData.cost =
             (if CCUsageService.menuBarCostSource (fst (snd (getUsageStats now env src s)))
                   = SessionWindow
              then getSessionWindowCost add clock (fst (snd (getUsageStats now env src s)))
              else DailyUsage.totalCost (today stats)),
           status =
             getStatus
               (case UsageStats.oauthUtilization stats of
                  None \<Rightarrow> 0
                | Some u \<Rightarrow>
                    if isAvailable u then WindowUtilization.utilization (fiveHour u) else 0),
           oauthUtilization = UsageStats.oauthUtilization stats\<rparr>,
      fst (snd (getUsageStats now env src s)), snd (snd (getUsageStats now env src s)))"
  using assms
  by (cases "getUsageStats now env src s") (auto simp: getMenuBarData_def Let_def)

lemma getUsageStats_costSource:
  "CCUsageService.menuBarCostSource (fst (snd (getUsageStats now env src s)))
     = CCUsageService.menuBarCostSource s"
proof (cases "cacheFresh now s")
  case True
  then obtain c where "cachedStats s = Some c"
    by (auto simp: cacheFresh_def)
  with True show ?thesis
    by (simp add: getUsageStats_hit)
next
  case False
  then show ?thesis
    by (auto simp: getUsageStats_miss fetchStats_def try_catch_def mergeSources_def Let_def
        split: sum.splits prod.splits)
qed

text \<open>
  A call that is not overlapped by another is \<open>callBegin\<close> followed by \<open>callEnd\<close>: the two
  steps leave the service in the state \<open>getUsageStats\<close> returns and issue its fetches.
\<close>

lemma sequential_call:
  "\<not> cacheFresh now (service l) \<Longrightarrow>
     service (callEnd now env src (callBegin now l))
       = fst (snd (getUsageStats now env src (service l)))
     \<and> issued (callEnd now env src (callBegin now l))
       = issued l @ snd (snd (getUsageStats now env src (service l)))
     \<and> outstanding (callEnd now env src (callBegin now l)) = outstanding l"
  by (auto simp: callBegin_def callEnd_def getUsageStats_miss split: sum.splits prod.splits)

lemma sequential_hit:
  "cacheFresh now (service l) \<Longrightarrow>
     callBegin now l = l \<and> snd (snd (getUsageStats now env src (service l))) = []"
  by (auto simp: callBegin_def getUsageStats_def cacheFresh_def)


subsection \<open>C1: failures of the three sources\<close>

text \<open>
  C1, as it is stated, fails. The session-block loader rejects while the daily loader and the
  rate-limit client answer (a day that cost 5 dollars, 42 percent used): the call returns the
  all-zero snapshot. Today's cost is 0 and the rate-limit data are absent, though both were
  delivered; with the session blocks delivered too, the same answers give a cost of 5 and
  the rate-limit data.
\<close>

theorem C1_one_rejection_zeroes_all:
  "getUsageStats 1000 sampleEnv blocksRejected initialCCUsageService
     = (Inr (getEmptyStats sampleEnv), initialCCUsageService, allRequests)
   \<and> dailyData blocksRejected = Inr (Some sampleDaily)
   \<and> oauthData blocksRejected = Inr (Some sampleUsage)
   \<and> DailyUsage.totalCost (today (getEmptyStats sampleEnv)) = 0
   \<and> thisWeek (getEmptyStats sampleEnv) = []
   \<and> UsageStats.oauthUtilization (getEmptyStats sampleEnv) = None
   \<and> DailyUsage.totalCost
        (today (fst (mergeSources 1000 sampleEnv (Some sampleBlocks) (Some sampleDaily)
           (Some sampleUsage) initialCCUsageService))) = 5
   \<and> UsageStats.oauthUtilization
        (fst (mergeSources 1000 sampleEnv (Some sampleBlocks) (Some sampleDaily)
           (Some sampleUsage) initialCCUsageService)) \<noteq> None"
  by (simp add: usage_eval)

text \<open>
  C1 as amended: \<open>getUsageStats\<close> never propagates an error: it always resolves to a
  snapshot. On a cache miss the three fetches are joined by one \<^verbatim>\<open>Promise.all\<close> inside one
  \<^verbatim>\<open>try\<close>/\<^verbatim>\<open>catch\<close>: when any one of them rejects, the call returns the all-zero snapshot
  as a whole and leaves the cache and the stored session blocks as they were. A source that
  fails soft, by resolving to nothing, degrades its own part only: without rate-limit data
  the snapshot is the one with them, but for the absent \<open>oauthUtilization\<close>; a missing list
  of days or of blocks counts as the empty list, in the snapshot and in the state.
\<close>

theorem C1_failure_handling:
  "(\<exists>stats. fst (getUsageStats now env src s) = Inr stats)
   \<and> (\<not> cacheFresh now s
        \<and> (blocks src = Inl e \<or> dailyData src = Inl e \<or> oauthData src = Inl e) \<longrightarrow>
      getUsageStats now env src s = (Inr (getEmptyStats env), s, allRequests))
   \<and> (\<not> cacheFresh now s \<and> blocks src = Inr bs \<and> dailyData src = Inr daily
        \<and> oauthData src = Inr oauth \<longrightarrow>
      fst (getUsageStats now env src s) = Inr (fst (mergeSources now env bs daily oauth s))
      \<and> fst (mergeSources now env bs daily None s)
          = (fst (mergeSources now env bs daily oauth s))\<lparr>UsageStats.oauthUtilization := None\<rparr>
      \<and> mergeSources now env None daily oauth s
          = mergeSources now env (Some []) daily oauth s
      \<and> mergeSources now env bs None oauth s
          = mergeSources now env bs (Some []) oauth s)"
proof -
  have a: "\<exists>stats. fst (getUsageStats now env src s) = Inr stats"
    by (rule getUsageStats_returns)
  have b: "\<not> cacheFresh now s
        \<and> (blocks src = Inl e \<or> dailyData src = Inl e \<or> oauthData src = Inl e) \<longrightarrow>
      getUsageStats now env src s = (Inr (getEmptyStats env), s, allRequests)"
    using fetchStats_rejected [of src e now env s] by (auto simp: getUsageStats_miss)
  have c: "\<not> cacheFresh now s \<and> blocks src = Inr bs \<and> dailyData src = Inr daily
        \<and> oauthData src = Inr oauth \<longrightarrow>
      fst (getUsageStats now env src s) = Inr (fst (mergeSources now env bs daily oauth s))"
    by (simp add: getUsageStats_fetched)
  have d: "fst (mergeSources now env bs daily None s)
          = (fst (mergeSources now env bs daily oauth s))\<lparr>UsageStats.oauthUtilization := None\<rparr>"
    by (simp add: mergeSources_def Let_def)
  have f: "mergeSources now env None daily oauth s
          = mergeSources now env (Some []) daily oauth s"
    by (simp add: mergeSources_def orNil_def Let_def)
  have g: "mergeSources now env bs None oauth s
          = mergeSources now env bs (Some []) oauth s"
    by (simp add: mergeSources_def orNil_def Let_def)
  from a b c d f g show ?thesis by simp
qed

theorem C1_failure_handling_witness:
  "\<not> cacheFresh 1000 initialCCUsageService
   \<and> blocks blocksRejected = Inl (Error ''ENOENT'')
   \<and> getUsageStats 1000 sampleEnv blocksRejected initialCCUsageService
       = (Inr (getEmptyStats sampleEnv), initialCCUsageService, allRequests)
   \<and> blocks oauthAbsent = Inr (Some sampleBlocks)
   \<and> dailyData oauthAbsent = Inr (Some sampleDaily)
   \<and> oauthData oauthAbsent = Inr None
   \<and> fst (getUsageStats 1000 sampleEnv oauthAbsent initialCCUsageService)
       = Inr (fst (mergeSources 1000 sampleEnv (Some sampleBlocks) (Some sampleDaily) None
                initialCCUsageService))
   \<and> DailyUsage.totalCost
        (today (fst (mergeSources 1000 sampleEnv (Some sampleBlocks) (Some sampleDaily) None
           initialCCUsageService))) = 5"
proof -
  have m: "\<not> cacheFresh 1000 initialCCUsageService"
    by (simp add: cacheFresh_def initialCCUsageService_def)
  have r: "blocks blocksRejected = Inl (Error ''ENOENT'')"
    by (simp add: blocksRejected_def)
  have o: "blocks oauthAbsent = Inr (Some sampleBlocks)"
    "dailyData oauthAbsent = Inr (Some sampleDaily)" "oauthData oauthAbsent = Inr None"
    by (simp_all add: oauthAbsent_def allResolved_def)
  have c: "DailyUsage.totalCost
        (today (fst (mergeSources 1000 sampleEnv (Some sampleBlocks) (Some sampleDaily) None
           initialCCUsageService))) = 5"
    by (simp add: usage_eval)
  show ?thesis
    using C1_failure_handling [of 1000 sampleEnv blocksRejected initialCCUsageService
        "Error ''ENOENT''"]
      C1_failure_handling [of 1000 sampleEnv oauthAbsent initialCCUsageService _
        "Some sampleBlocks" "Some sampleDaily" None] m r o c
    by simp
qed


subsection \<open>C4: overlapping calls\<close>

text \<open>
  C4, as it is stated, fails. Two calls that both begin before any cache entry exists, the
  second before the first has come back from its fetches, start six fetches, two of each
  source, and both calls are outstanding at once: the cache test reads \<open>cachedStats\<close>
  only, and nothing records a fetch in flight.
\<close>

theorem C4_two_fetches_of_each_source:
  "issued (callBegin 1 (callBegin 0 initialLoop))
     = [LoadSessionBlockData, LoadDailyUsageData, OAuthGetUsageData,
        LoadSessionBlockData, LoadDailyUsageData, OAuthGetUsageData]
   \<and> count_list (issued (callBegin 1 (callBegin 0 initialLoop))) LoadSessionBlockData = 2
   \<and> count_list (issued (callBegin 1 (callBegin 0 initialLoop))) LoadDailyUsageData = 2
   \<and> count_list (issued (callBegin 1 (callBegin 0 initialLoop))) OAuthGetUsageData = 2
   \<and> outstanding (callBegin 1 (callBegin 0 initialLoop)) = 2"
  by (simp add: callBegin_def initialLoop_def initialCCUsageService_def cacheFresh_def
      allRequests_def)

text \<open>
  C4 as amended: when no cache entry exists, each of two calls that begin before either has
  come back starts its own fetch of each of the three sources: two fetches of each source,
  two aggregations outstanding. Beginning a call leaves the service state as it is, so the
  second call sees what the first saw. Only a call that begins after a successful one has
  completed, within the cache duration, starts no fetch.
\<close>

theorem C4_no_coalescing:
  assumes "cachedStats (service l) = None"
  shows "issued (callBegin t2 (callBegin t1 l)) = issued l @ allRequests @ allRequests
       \<and> outstanding (callBegin t2 (callBegin t1 l)) = outstanding l + 2
       \<and> service (callBegin t2 (callBegin t1 l)) = service l
       \<and> count_list allRequests LoadSessionBlockData = 1
       \<and> count_list allRequests LoadDailyUsageData = 1
       \<and> count_list allRequests OAuthGetUsageData = 1"
  using assms by (simp add: callBegin_def cacheFresh_def allRequests_def)

theorem C4_no_coalescing_witness:
  "cachedStats (service initialLoop) = None
   \<and> issued (callBegin 1 (callBegin 0 initialLoop)) = allRequests @ allRequests
   \<and> outstanding (callBegin 1 (callBegin 0 initialLoop)) = 2"
proof -
  have h: "cachedStats (service initialLoop) = None"
    by (simp add: initialLoop_def initialCCUsageService_def)
  have i: "issued initialLoop = []" "outstanding initialLoop = 0"
    by (simp_all add: initialLoop_def)
  show ?thesis
    using C4_no_coalescing [OF h, of 1 0] h i by simp
qed


subsection \<open>C6: the three-second cache\<close>

text \<open>
  C6, as it is stated, fails when calls overlap, or when a fetch is in flight while
  \<open>updateConfiguration\<close> runs. The cache is written after the \<^verbatim>\<open>await\<close>, with the time the
  call read on its entry. Of two successful calls that begin at 0 and at 2000 ms, the first
  coming back last, the cache keeps the time 0: a call at 4100 ms, less than 3 seconds
  after the second call, fetches again. And a call that begins at 0 and comes back after
  \<open>updateConfiguration\<close> has run fills the cache that was cleared: the next call, at 1 ms,
  is served from it and fetches nothing.
\<close>

theorem C6_overlapping_calls:
  "outstanding overlappedCalls = 0
   \<and> cachedStats (service overlappedCalls) \<noteq> None
   \<and> lastUpdate (service overlappedCalls) = 0
   \<and> (4100 :: int) - 2000 < CACHE_DURATION
   \<and> snd (snd (getUsageStats 4100 sampleEnv allResolved (service overlappedCalls)))
       = allRequests
   \<and> outstanding fetchAcrossUpdate = 0
   \<and> cachedStats (service fetchAcrossUpdate) \<noteq> None
   \<and> snd (snd (getUsageStats 1 sampleEnv allResolved (service fetchAcrossUpdate))) = []"
  by (simp add: overlappedCalls_def fetchAcrossUpdate_def callBegin_def callEnd_def
      initialLoop_def sessionWindowConfig_def emptyConfig_def usage_eval)

text \<open>
  C6 as amended, for calls that do not overlap and with no fetch in flight across an update
  of the configuration: let a call at time \<open>t0\<close> find no fresh cache entry and fetch with
  success (all three promises resolve), and let \<open>s1\<close> be the state it leaves when it has
  come back. Then a call at a time \<open>t\<close> less than 3000 ms after \<open>t0\<close> returns the very
  snapshot the first call returned, starts no fetch and leaves \<open>s1\<close> as it is; a call
  3000 ms or more after \<open>t0\<close> starts the three fetches; and after \<open>updateConfiguration\<close>
  the cache is empty and a call at any time starts the three fetches. The time of a call
  is what \<^verbatim>\<open>Date.now()\<close> reads on its entry.
\<close>

theorem C6_cache:
  assumes "\<not> cacheFresh t0 s0" "blocks src = Inr bs" "dailyData src = Inr daily"
    "oauthData src = Inr oauth"
  shows "CACHE_DURATION = 3000
       \<and> (\<exists>stats. fst (getUsageStats t0 env src s0) = Inr stats
            \<and> (t - t0 < CACHE_DURATION \<longrightarrow>
                 getUsageStats t env' src' (fst (snd (getUsageStats t0 env src s0)))
                   = (Inr stats, fst (snd (getUsageStats t0 env src s0)), []))
            \<and> (CACHE_DURATION \<le> t - t0 \<longrightarrow>
                 snd (snd (getUsageStats t env' src' (fst (snd (getUsageStats t0 env src s0)))))
                   = allRequests)
            \<and> cachedStats (updateConfiguration config (fst (snd (getUsageStats t0 env src s0))))
                 = None
            \<and> snd (snd (getUsageStats t env' src'
                 (updateConfiguration config (fst (snd (getUsageStats t0 env src s0))))))
                   = allRequests)"
proof -
  let ?stats = "fst (mergeSources t0 env bs daily oauth s0)"
  let ?s1 = "snd (mergeSources t0 env bs daily oauth s0)"
  have first: "getUsageStats t0 env src s0 = (Inr ?stats, ?s1, allRequests)"
    using assms by (rule getUsageStats_fetched)
  have cached: "cachedStats ?s1 = Some ?stats" and upd: "lastUpdate ?s1 = t0"
    by (simp_all add: mergeSources_state)
  have hit: "t - t0 < CACHE_DURATION \<longrightarrow> getUsageStats t env' src' ?s1 = (Inr ?stats, ?s1, [])"
    using cached upd by (auto intro!: getUsageStats_hit simp: cacheFresh_def)
  have miss: "CACHE_DURATION \<le> t - t0 \<longrightarrow>
      snd (snd (getUsageStats t env' src' ?s1)) = allRequests"
    using upd by (auto intro!: getUsageStats_miss_requests simp: cacheFresh_def)
  have cleared: "cachedStats (updateConfiguration config ?s1) = None"
    by (rule updateConfiguration_cache)
  then have refetch: "snd (snd (getUsageStats t env' src' (updateConfiguration config ?s1)))
      = allRequests"
    by (auto intro!: getUsageStats_miss_requests simp: cacheFresh_def)
  from first hit miss cleared refetch show ?thesis
    by (simp add: CACHE_DURATION_def)
qed

theorem C6_cache_witness:
  "\<not> cacheFresh 10000 initialCCUsageService
   \<and> fst (getUsageStats 10000 sampleEnv allResolved initialCCUsageService)
       = Inr (fst (mergeSources 10000 sampleEnv (Some sampleBlocks) (Some sampleDaily)
                (Some sampleUsage) initialCCUsageService))
   \<and> getUsageStats 12999 sampleEnv blocksRejected
        (fst (snd (getUsageStats 10000 sampleEnv allResolved initialCCUsageService)))
       = (Inr (fst (mergeSources 10000 sampleEnv (Some sampleBlocks) (Some sampleDaily)
                (Some sampleUsage) initialCCUsageService)),
          fst (snd (getUsageStats 10000 sampleEnv allResolved initialCCUsageService)), [])
   \<and> snd (snd (getUsageStats 13000 sampleEnv blocksRejected
        (fst (snd (getUsageStats 10000 sampleEnv allResolved initialCCUsageService)))))
       = allRequests
   \<and> snd (snd (getUsageStats 10001 sampleEnv blocksRejected
        (updateConfiguration sessionWindowConfig
          (fst (snd (getUsageStats 10000 sampleEnv allResolved initialCCUsageService))))))
       = allRequests"
proof -
  have m: "\<not> cacheFresh 10000 initialCCUsageService"
    by (simp add: cacheFresh_def initialCCUsageService_def)
  have r: "blocks allResolved = Inr (Some sampleBlocks)"
    "dailyData allResolved = Inr (Some sampleDaily)"
    "oauthData allResolved = Inr (Some sampleUsage)"
    by (simp_all add: allResolved_def)
  have f: "fst (getUsageStats 10000 sampleEnv allResolved initialCCUsageService)
       = Inr (fst (mergeSources 10000 sampleEnv (Some sampleBlocks) (Some sampleDaily)
                (Some sampleUsage) initialCCUsageService))"
    using m r by (simp add: getUsageStats_fetched)
  have t: "(12999::int) - 10000 < CACHE_DURATION" "CACHE_DURATION \<le> (13000::int) - 10000"
    by (simp_all add: CACHE_DURATION_def)
  show ?thesis
    using C6_cache [OF m r, of sampleEnv 12999 sampleEnv blocksRejected]
      C6_cache [OF m r, of sampleEnv 13000 sampleEnv blocksRejected]
      C6_cache [OF m r, of sampleEnv 10001 sampleEnv blocksRejected sessionWindowConfig] m f t
    by auto
qed


subsection \<open>C7: the status thresholds\<close>

text \<open>
  C7: \<open>getStatus\<close> is a function of the percentage alone: safe below 70 (so on [0, 70)),
  warning on [70, 90), critical at 90 and above. The thresholds of a configuration play no
  part: \<open>updateConfiguration\<close> does not read them, and the status of the menu bar data is
  \<open>getStatus\<close> of their percentage, whatever thresholds have been configured.
\<close>

theorem C7_status_thresholds:
  "(p < 70 \<longrightarrow> getStatus p = Safe)
   \<and> (70 \<le> p \<and> p < 90 \<longrightarrow> getStatus p = Warning)
   \<and> (90 \<le> p \<longrightarrow> getStatus p = Critical)
   \<and> updateConfiguration (config\<lparr>notificationThresholds := th\<rparr>) s
       = updateConfiguration config s
   \<and> (\<exists>mb. fst (getMenuBarData add now env src clock
                  (updateConfiguration (config\<lparr>notificationThresholds := th\<rparr>) s)) = Inr mb
          \<and> MenuBarData.status mb = getStatus (percentageUsed mb))"
proof -
  let ?s = "updateConfiguration (config\<lparr>notificationThresholds := th\<rparr>) s"
  obtain stats where "fst (getUsageStats now env src ?s) = Inr stats"
    using getUsageStats_returns by blast
  then have "\<exists>mb. fst (getMenuBarData add now env src clock ?s) = Inr mb
      \<and> MenuBarData.status mb = getStatus (percentageUsed mb)"
    by (simp add: getMenuBarData_eq)
  then show ?thesis
    by (simp add: getStatus_def updateConfiguration_thresholds)
qed

theorem C7_status_thresholds_witness:
  "getStatus 0 = Safe \<and> getStatus 69.9 = Safe \<and> getStatus 70 = Warning
   \<and> getStatus 89.9 = Warning \<and> getStatus 90 = Critical \<and> getStatus 100 = Critical
   \<and> updateConfiguration
        (emptyConfig\<lparr>notificationThresholds := Some \<lparr>warning = 50, critical = 60\<rparr>\<rparr>)
        initialCCUsageService
       = updateConfiguration emptyConfig initialCCUsageService"
  using C7_status_thresholds [of 0] C7_status_thresholds [of "69.9"] C7_status_thresholds [of 70]
    C7_status_thresholds [of "89.9"] C7_status_thresholds [of 90] C7_status_thresholds [of 100]
    C7_status_thresholds [of 0 "Some \<lparr>warning = 50, critical = 60\<rparr>" emptyConfig
      initialCCUsageService]
  by simp


subsection \<open>C8: the cost of the session window\<close>

text \<open>
  C8: with the cost source \<open>SessionWindow\<close>, \<open>getMenuBarData\<close> returns as cost the sum of
  \<open>costUSD\<close> over the stored session blocks (those of the state after the call has got its
  snapshot) that are not marked as a gap and whose start time is not before the clock
  reading minus 5 hours. The sum is the one the loop forms: the costs of these blocks, in
  the order of the list, added one after the other to 0 with the addition of the number
  type, whatever that addition rounds to; with an addition that does not round it is the
  sum of the costs. For the three blocks of the example (started 6, 2 and 1 hours ago,
  costing 5, 3 and 2, the last one a gap) only the second block is added, and the cost is
  3, at every clock reading, given that adding 3 to 0 gives 3.
\<close>

theorem C8_session_window_cost:
  assumes "CCUsageService.menuBarCostSource s = SessionWindow"
  shows "(\<exists>mb. fst (getMenuBarData add now env src clock s) = Inr mb
           \<and> MenuBarData.cost mb =
               foldl add 0 (map costUSD
                 (filter (\<lambda>b. isGap b \<noteq> Some True \<and> clock - 5 * 60 * 60 * 1000 \<le> startTime b)
                    (sessionBlocks (fst (snd (getMenuBarData add now env src clock s)))))))
       \<and> (\<exists>mb. fst (getMenuBarData (+) now env src clock s) = Inr mb
           \<and> MenuBarData.cost mb =
               sum_list (map costUSD
                 (filter (\<lambda>b. isGap b \<noteq> Some True \<and> clock - 5 * 60 * 60 * 1000 \<le> startTime b)
                    (sessionBlocks (fst (snd (getMenuBarData (+) now env src clock s)))))))
       \<and> (add 0 3 = 3 \<and> blocks src = Inr (Some (windowBlocks clock)) \<and> dailyData src = Inr daily
            \<and> oauthData src = Inr oauth \<and> \<not> cacheFresh now s \<longrightarrow>
          (\<exists>mb. fst (getMenuBarData add now env src clock s) = Inr mb \<and> MenuBarData.cost mb = 3))
       \<and> (add 0 3 = 3 \<longrightarrow>
          getSessionWindowCost add clock (s\<lparr>sessionBlocks := windowBlocks clock\<rparr>) = 3)"
proof -
  obtain stats where st: "fst (getUsageStats now env src s) = Inr stats"
    using getUsageStats_returns by blast
  have src: "CCUsageService.menuBarCostSource (fst (snd (getUsageStats now env src s)))
      = SessionWindow"
    using assms by (simp add: getUsageStats_costSource)
  have a: "\<exists>mb. fst (getMenuBarData f now env src clock s) = Inr mb
           \<and> MenuBarData.cost mb =
               foldl f 0 (map costUSD
                 (filter (\<lambda>b. isGap b \<noteq> Some True \<and> clock - 5 * 60 * 60 * 1000 \<le> startTime b)
                    (sessionBlocks (fst (snd (getMenuBarData f now env src clock s))))))" for f
    using st src by (simp add: getMenuBarData_eq getSessionWindowCost_foldl)
  have a': "\<exists>mb. fst (getMenuBarData (+) now env src clock s) = Inr mb
           \<and> MenuBarData.cost mb =
               sum_list (map costUSD
                 (filter (\<lambda>b. isGap b \<noteq> Some True \<and> clock - 5 * 60 * 60 * 1000 \<le> startTime b)
                    (sessionBlocks (fst (snd (getMenuBarData (+) now env src clock s))))))"
    using a [of "(+)"] by (simp add: foldl_plus_sum_list)
  have w: "add 0 3 = 3 \<Longrightarrow>
      getSessionWindowCost add clock (t\<lparr>sessionBlocks := windowBlocks clock\<rparr>) = 3" for t
    by (simp add: getSessionWindowCost_def windowBlocks_def hourMs_def orZero_def)
  have b: "add 0 3 = 3 \<and> blocks src = Inr (Some (windowBlocks clock)) \<and> dailyData src = Inr daily
            \<and> oauthData src = Inr oauth \<and> \<not> cacheFresh now s \<longrightarrow>
          (\<exists>mb. fst (getMenuBarData add now env src clock s) = Inr mb \<and> MenuBarData.cost mb = 3)"
  proof (intro impI, elim conjE)
    assume z: "add 0 3 = 3"
      and h: "blocks src = Inr (Some (windowBlocks clock))" "dailyData src = Inr daily"
      "oauthData src = Inr oauth" "\<not> cacheFresh now s"
    have g: "getUsageStats now env src s =
        (Inr (fst (mergeSources now env (Some (windowBlocks clock)) daily oauth s)),
         snd (mergeSources now env (Some (windowBlocks clock)) daily oauth s), allRequests)"
      using h by (simp add: getUsageStats_fetched)
    have "snd (mergeSources now env (Some (windowBlocks clock)) daily oauth s)
        = (s\<lparr>cachedStats := Some (fst (mergeSources now env (Some (windowBlocks clock)) daily
              oauth s)), lastUpdate := now\<rparr>)\<lparr>sessionBlocks := windowBlocks clock\<rparr>"
      by (simp add: mergeSources_state orNil_def)
    then have "getSessionWindowCost add clock
        (snd (mergeSources now env (Some (windowBlocks clock)) daily oauth s)) = 3"
      using w [OF z] by simp
    then show "\<exists>mb. fst (getMenuBarData add now env src clock s) = Inr mb
        \<and> MenuBarData.cost mb = 3"
      using g src by (simp add: getMenuBarData_eq)
  qed
  from a [of add] a' b w show ?thesis by blast
qed

theorem C8_session_window_cost_witness:
  "CCUsageService.menuBarCostSource
      (initialCCUsageService\<lparr>CCUsageService.menuBarCostSource := SessionWindow\<rparr>) = SessionWindow
   \<and> (0 :: real) + 3 = 3
   \<and> \<not> cacheFresh 1000
        (initialCCUsageService\<lparr>CCUsageService.menuBarCostSource := SessionWindow\<rparr>)
   \<and> blocks (allResolved\<lparr>blocks := Inr (Some (windowBlocks 1700000000000))\<rparr>)
       = Inr (Some (windowBlocks 1700000000000))
   \<and> (\<exists>mb. fst (getMenuBarData (+) 1000 sampleEnv
                 (allResolved\<lparr>blocks := Inr (Some (windowBlocks 1700000000000))\<rparr>) 1700000000000
                 (initialCCUsageService\<lparr>CCUsageService.menuBarCostSource := SessionWindow\<rparr>))
              = Inr mb \<and> MenuBarData.cost mb = 3)"
proof -
  let ?s = "initialCCUsageService\<lparr>CCUsageService.menuBarCostSource := SessionWindow\<rparr>"
  let ?src = "allResolved\<lparr>blocks := Inr (Some (windowBlocks 1700000000000))\<rparr>"
  have c: "CCUsageService.menuBarCostSource ?s = SessionWindow"
    by simp
  have z: "(0 :: real) + 3 = 3"
    by simp
  have m: "\<not> cacheFresh 1000 ?s"
    by (simp add: cacheFresh_def initialCCUsageService_def)
  have r: "blocks ?src = Inr (Some (windowBlocks 1700000000000))"
    "dailyData ?src = Inr (Some sampleDaily)" "oauthData ?src = Inr (Some sampleUsage)"
    by (simp_all add: allResolved_def)
  show ?thesis
    using C8_session_window_cost [OF c, of "(+)" 1000 sampleEnv ?src 1700000000000
        "Some sampleDaily" "Some sampleUsage"] c z m r
    by simp
qed


section \<open>Properties of ClaudeOAuthService\<close>

lemmas oauth_eval = getUsageData_def getAccessToken_def fetchUsage_def try_catch_def
  validated_def oauthCacheFresh_def OAUTH_CACHE_DURATION_def TypeError_def httpCalls_def
  logged_def sampleLimit_def completeBody_def noSevenDay_def okResponse_def unauthorized_def
  noKeychainEntry_def withToken_def initialClaudeOAuthService_def

text \<open>\<open>getAccessToken\<close> never rejects; without a token it has logged why.\<close>

lemma getAccessToken_shape:
  "(\<exists>l. getAccessToken w = (Inr None, [Exec, ConsoleError l]))
   \<or> (\<exists>t. getAccessToken w = (Inr (Some t), [Exec]))"
  by (auto simp: getAccessToken_def try_catch_def split: sum.splits option.splits)

lemma getAccessToken_none:
  "fst (getAccessToken w) = Inr None \<Longrightarrow> \<exists>l. getAccessToken w = (Inr None, [Exec, ConsoleError l])"
  using getAccessToken_shape [of w] by auto

lemma getAccessToken_some:
  "fst (getAccessToken w) = Inr (Some t) \<Longrightarrow> getAccessToken w = (Inr (Some t), [Exec])"
  using getAccessToken_shape [of w] by auto

lemma getAccessToken_no_credential:
  "execAsync w = Inl e \<Longrightarrow> getAccessToken w = (Inr None, [Exec, ConsoleError (KeychainFailed e)])"
  "execAsync w = Inr out \<Longrightarrow> JSON_parse_trimmed w out = Inl e \<Longrightarrow>
     getAccessToken w = (Inr None, [Exec, ConsoleError (KeychainFailed e)])"
  "execAsync w = Inr out \<Longrightarrow> JSON_parse_trimmed w out = Inr (Some c) \<Longrightarrow>
     claudeAiOauth c = None \<Longrightarrow>
     getAccessToken w = (Inr None, [Exec, ConsoleError NoAccessTokenFound])"
  by (simp_all add: getAccessToken_def try_catch_def)

text \<open>The \<^verbatim>\<open>try\<close> block never lets an exception out, and sends exactly one request.\<close>

lemma fetchUsage_shape:
  "(\<exists>l. fetchUsage now w token s = Inr (None, s, [HttpGet token, ConsoleError l]))
   \<or> (\<exists>d. fetchUsage now w token s
           = Inr (Some d, s\<lparr>cachedUsage := Some d, lastFetch := now\<rparr>, [HttpGet token]))"
  by (auto simp: fetchUsage_def try_catch_def split: sum.splits option.splits)

lemma fetchUsage_not_ok:
  "fetch w token = Inr response \<Longrightarrow> \<not> ok response \<Longrightarrow>
     fetchUsage now w token s =
       Inr (None, s, [HttpGet token,
                      ConsoleError (ApiReturned (http_status response) (statusText response))])"
  by (simp add: fetchUsage_def try_catch_def)

lemma fetchUsage_unparsed:
  "fetch w token = Inr response \<Longrightarrow> ok response \<Longrightarrow> json response = Inl e \<Longrightarrow>
     fetchUsage now w token s = Inr (None, s, [HttpGet token, ConsoleError (FetchFailed e)])"
  by (simp add: fetchUsage_def try_catch_def)

lemma fetchUsage_missing_window:
  "fetch w token = Inr response \<Longrightarrow> ok response \<Longrightarrow> json response = Inr (Some raw) \<Longrightarrow>
     raw_five_hour raw = None \<or> raw_seven_day raw = None \<Longrightarrow>
     fetchUsage now w token s = Inr (None, s, [HttpGet token, ConsoleError (InvalidStructure raw)])"
  by (auto simp: fetchUsage_def try_catch_def validated_def split: option.splits)

lemma fetchUsage_failure:
  assumes "fetch w token = Inr response"
    and "\<not> ok response \<or> json response = Inl e
         \<or> json response = Inr (Some raw) \<and> (raw_five_hour raw = None \<or> raw_seven_day raw = None)"
  shows "\<exists>l. fetchUsage now w token s = Inr (None, s, [HttpGet token, ConsoleError l])"
proof (cases "ok response")
  case False
  with assms(1) show ?thesis
    by (simp add: fetchUsage_not_ok)
next
  case True
  with assms show ?thesis
    by (auto simp: fetchUsage_unparsed fetchUsage_missing_window)
qed

lemma getUsageData_fresh:
  "oauthCacheFresh now s \<Longrightarrow> getUsageData now w s = (Inr (cachedUsage s), s, [])"
  by (simp add: getUsageData_def)

lemma getUsageData_no_token:
  "\<not> oauthCacheFresh now s \<Longrightarrow> getAccessToken w = (Inr None, effs) \<Longrightarrow>
     getUsageData now w s = (Inr None, s, effs)"
  by (simp add: getUsageData_def)

lemma getUsageData_token:
  "\<not> oauthCacheFresh now s \<Longrightarrow> getAccessToken w = (Inr (Some token), effs) \<Longrightarrow>
     fetchUsage now w token s = Inr (result, s', effs') \<Longrightarrow>
     getUsageData now w s = (Inr result, s', effs @ effs')"
  by (simp add: getUsageData_def)

lemma getUsageData_returns: "\<exists>r. fst (getUsageData now w s) = Inr r"
proof (cases "oauthCacheFresh now s")
  case True
  then show ?thesis by (simp add: getUsageData_fresh)
next
  case False
  show ?thesis
    using getAccessToken_shape [of w]
  proof (elim disjE exE)
    fix l assume "getAccessToken w = (Inr None, [Exec, ConsoleError l])"
    with False show ?thesis by (simp add: getUsageData_no_token)
  next
    fix t assume t: "getAccessToken w = (Inr (Some t), [Exec])"
    show ?thesis
      using fetchUsage_shape [of now w t s] False t
      by (auto simp: getUsageData_token)
  qed
qed

text \<open>What a call has done tells which way it went.\<close>

lemma getUsageData_Exec:
  "Exec \<in> set (snd (snd (getUsageData now w s))) \<Longrightarrow> \<not> oauthCacheFresh now s"
  by (auto simp: getUsageData_fresh)

lemma getUsageData_HttpGet:
  assumes "HttpGet token \<in> set (snd (snd (getUsageData now w s)))"
  shows "\<not> oauthCacheFresh now s \<and> getAccessToken w = (Inr (Some token), [Exec])"
proof -
  have miss: "\<not> oauthCacheFresh now s"
    using assms by (auto simp: getUsageData_fresh)
  show ?thesis
    using getAccessToken_shape [of w]
  proof (elim disjE exE)
    fix l assume "getAccessToken w = (Inr None, [Exec, ConsoleError l])"
    with miss assms show ?thesis by (simp add: getUsageData_no_token)
  next
    fix t assume t: "getAccessToken w = (Inr (Some t), [Exec])"
    then have "token = t"
      using fetchUsage_shape [of now w t s] miss assms
      by (auto simp: getUsageData_token)
    with miss t show ?thesis by simp
  qed
qed

text \<open>
  A call within 30 seconds of a fetch that filled the cache returns the cached data without
  looking the credential up: here the keychain entry has gone in the meantime.
\<close>

lemma cache_hit_skips_lookup:
  "getUsageData 110000 noKeychainEntry cachedService
     = (Inr (cachedUsage cachedService), cachedService, [])
   \<and> cachedUsage cachedService \<noteq> None"
  by (simp add: cachedService_def oauth_eval)


subsection \<open>C9: the rate-limit client fails soft\<close>

text \<open>
  C9: \<open>getUsageData\<close> never rejects: it always resolves, to the data or to nothing. It
  resolves to nothing, leaves its cache as it was and has logged the failure, in each of
  these cases: the call has looked the credential up and found none (then it has sent no
  request); the call has sent its request and the response is not in the 2xx range, or its
  body cannot be parsed, or its body lacks the five-hour or the seven-day window. A call has
  found no credential when the keychain command fails, when its output cannot be parsed or
  when the parsed value carries no token. (A call served from the 30-second cache looks
  nothing up and sends nothing.)
\<close>

theorem C9_getUsageData_fails_soft:
  "(\<exists>r. fst (getUsageData now w s) = Inr r)
   \<and> (Exec \<in> set (snd (snd (getUsageData now w s))) \<and> fst (getAccessToken w) = Inr None \<longrightarrow>
        fst (getUsageData now w s) = Inr None
        \<and> fst (snd (getUsageData now w s)) = s
        \<and> httpCalls (snd (snd (getUsageData now w s))) = []
        \<and> logged (snd (snd (getUsageData now w s))) \<noteq> [])
   \<and> (HttpGet token \<in> set (snd (snd (getUsageData now w s))) \<and> fetch w token = Inr response
        \<and> (\<not> ok response \<or> json response = Inl e
            \<or> json response = Inr (Some raw)
              \<and> (raw_five_hour raw = None \<or> raw_seven_day raw = None)) \<longrightarrow>
        fst (getUsageData now w s) = Inr None
        \<and> fst (snd (getUsageData now w s)) = s
        \<and> httpCalls (snd (snd (getUsageData now w s))) = [token]
        \<and> logged (snd (snd (getUsageData now w s))) \<noteq> [])
   \<and> (execAsync w = Inl e
        \<or> execAsync w = Inr out
          \<and> (JSON_parse_trimmed w out = Inl e
              \<or> JSON_parse_trimmed w out = Inr (Some c) \<and> claudeAiOauth c = None) \<longrightarrow>
        fst (getAccessToken w) = Inr None)"
proof -
  have a: "\<exists>r. fst (getUsageData now w s) = Inr r"
    by (rule getUsageData_returns)
  have b: "Exec \<in> set (snd (snd (getUsageData now w s))) \<and> fst (getAccessToken w) = Inr None \<longrightarrow>
        fst (getUsageData now w s) = Inr None
        \<and> fst (snd (getUsageData now w s)) = s
        \<and> httpCalls (snd (snd (getUsageData now w s))) = []
        \<and> logged (snd (snd (getUsageData now w s))) \<noteq> []"
  proof (intro impI, elim conjE)
    assume x: "Exec \<in> set (snd (snd (getUsageData now w s)))"
      and n: "fst (getAccessToken w) = Inr None"
    from x have miss: "\<not> oauthCacheFresh now s"
      by (rule getUsageData_Exec)
    from n obtain l where "getAccessToken w = (Inr None, [Exec, ConsoleError l])"
      using getAccessToken_none by blast
    with miss have "getUsageData now w s = (Inr None, s, [Exec, ConsoleError l])"
      by (rule getUsageData_no_token)
    then show "fst (getUsageData now w s) = Inr None
        \<and> fst (snd (getUsageData now w s)) = s
        \<and> httpCalls (snd (snd (getUsageData now w s))) = []
        \<and> logged (snd (snd (getUsageData now w s))) \<noteq> []"
      by (simp add: httpCalls_def logged_def)
  qed
  have c: "HttpGet token \<in> set (snd (snd (getUsageData now w s))) \<and> fetch w token = Inr response
        \<and> (\<not> ok response \<or> json response = Inl e
            \<or> json response = Inr (Some raw)
              \<and> (raw_five_hour raw = None \<or> raw_seven_day raw = None)) \<longrightarrow>
        fst (getUsageData now w s) = Inr None
        \<and> fst (snd (getUsageData now w s)) = s
        \<and> httpCalls (snd (snd (getUsageData now w s))) = [token]
        \<and> logged (snd (snd (getUsageData now w s))) \<noteq> []"
  proof (intro impI, elim conjE)
    assume h: "HttpGet token \<in> set (snd (snd (getUsageData now w s)))"
      and f: "fetch w token = Inr response"
      and bad: "\<not> ok response \<or> json response = Inl e
            \<or> json response = Inr (Some raw)
              \<and> (raw_five_hour raw = None \<or> raw_seven_day raw = None)"
    from h have miss: "\<not> oauthCacheFresh now s"
      and tok: "getAccessToken w = (Inr (Some token), [Exec])"
      using getUsageData_HttpGet by blast+
    from f bad obtain l where
      "fetchUsage now w token s = Inr (None, s, [HttpGet token, ConsoleError l])"
      using fetchUsage_failure by blast
    with miss tok have
      "getUsageData now w s = (Inr None, s, [Exec] @ [HttpGet token, ConsoleError l])"
      by (rule getUsageData_token)
    then show "fst (getUsageData now w s) = Inr None
        \<and> fst (snd (getUsageData now w s)) = s
        \<and> httpCalls (snd (snd (getUsageData now w s))) = [token]
        \<and> logged (snd (snd (getUsageData now w s))) \<noteq> []"
      by (simp add: httpCalls_def logged_def)
  qed
  have d: "execAsync w = Inl e
        \<or> execAsync w = Inr out
          \<and> (JSON_parse_trimmed w out = Inl e
              \<or> JSON_parse_trimmed w out = Inr (Some c) \<and> claudeAiOauth c = None) \<longrightarrow>
        fst (getAccessToken w) = Inr None"
    by (auto simp: getAccessToken_no_credential)
  from a b c d show ?thesis by blast
qed

theorem C9_getUsageData_fails_soft_witness:
  "execAsync noKeychainEntry = Inl (Error ''Command failed'')
   \<and> Exec \<in> set (snd (snd (getUsageData 1000 noKeychainEntry initialClaudeOAuthService)))
   \<and> getUsageData 1000 noKeychainEntry initialClaudeOAuthService
       = (Inr None, initialClaudeOAuthService,
          [Exec, ConsoleError (KeychainFailed (Error ''Command failed''))])
   \<and> HttpGet ''tok'' \<in> set (snd (snd (getUsageData 1000 (withToken unauthorized)
                                        initialClaudeOAuthService)))
   \<and> \<not> ok unauthorized
   \<and> fst (getUsageData 1000 (withToken unauthorized) initialClaudeOAuthService) = Inr None
   \<and> json (okResponse (Inl (Error ''SyntaxError''))) = Inl (Error ''SyntaxError'')
   \<and> fst (getUsageData 1000 (withToken (okResponse (Inl (Error ''SyntaxError''))))
        initialClaudeOAuthService) = Inr None
   \<and> raw_seven_day noSevenDay = None
   \<and> fst (getUsageData 1000 (withToken (okResponse (Inr (Some noSevenDay))))
        initialClaudeOAuthService) = Inr None
   \<and> logged (snd (snd (getUsageData 1000 (withToken (okResponse (Inr (Some noSevenDay))))
        initialClaudeOAuthService))) = [InvalidStructure noSevenDay]"
proof -
  have k: "execAsync noKeychainEntry = Inl (Error ''Command failed'')"
    by (simp add: noKeychainEntry_def)
  have x: "getUsageData 1000 noKeychainEntry initialClaudeOAuthService
       = (Inr None, initialClaudeOAuthService,
          [Exec, ConsoleError (KeychainFailed (Error ''Command failed''))])"
    by (simp add: oauth_eval)
  have f: "fetch (withToken r) ''tok'' = Inr r" for r
    by (simp add: withToken_def)
  have h: "HttpGet ''tok'' \<in> set (snd (snd (getUsageData 1000 (withToken unauthorized)
                                        initialClaudeOAuthService)))"
    "HttpGet ''tok'' \<in> set (snd (snd (getUsageData 1000
        (withToken (okResponse (Inl (Error ''SyntaxError'')))) initialClaudeOAuthService)))"
    "HttpGet ''tok'' \<in> set (snd (snd (getUsageData 1000
        (withToken (okResponse (Inr (Some noSevenDay)))) initialClaudeOAuthService)))"
    by (simp_all add: oauth_eval)
  have u: "\<not> ok unauthorized"
    by (simp add: unauthorized_def)
  have j: "json (okResponse (Inl (Error ''SyntaxError''))) = Inl (Error ''SyntaxError'')"
    "json (okResponse (Inr (Some noSevenDay))) = Inr (Some noSevenDay)"
    by (simp_all add: okResponse_def)
  have m: "raw_seven_day noSevenDay = None"
    by (simp add: noSevenDay_def)
  have l: "logged (snd (snd (getUsageData 1000 (withToken (okResponse (Inr (Some noSevenDay))))
        initialClaudeOAuthService))) = [InvalidStructure noSevenDay]"
    by (simp add: oauth_eval)
  show ?thesis
    using C9_getUsageData_fails_soft [of 1000 noKeychainEntry initialClaudeOAuthService _ _
        "Error ''Command failed''"]
      C9_getUsageData_fails_soft [of 1000 "withToken unauthorized" initialClaudeOAuthService
        "''tok''" unauthorized]
      C9_getUsageData_fails_soft [of 1000 "withToken (okResponse (Inl (Error ''SyntaxError'')))"
        initialClaudeOAuthService "''tok''" "okResponse (Inl (Error ''SyntaxError''))"
        "Error ''SyntaxError''"]
      C9_getUsageData_fails_soft [of 1000 "withToken (okResponse (Inr (Some noSevenDay)))"
        initialClaudeOAuthService "''tok''" "okResponse (Inr (Some noSevenDay))" _ noSevenDay]
      k x f h u j m l
    by simp
qed


end
